theory Spec2Isabelle
  imports Complex_Main "HOL-Library.Multiset" "HOL-Library.List_Lexorder" "HOL-Library.Char_ord"
begin

section \<open>Data model of \<^verbatim>\<open>run_analysis.py\<close>\<close>

text \<open>
  The script builds three tables (patients, medication adherence, hospital admissions),
  loads them into an in-memory SQLite database and runs two grouped queries over them.

  Conventions of the embedding.
  \<^item> A Python \<^verbatim>\<open>int\<close> is an \<open>int\<close>. A Python \<^verbatim>\<open>float\<close> is idealised as an exact
    rational (\<open>rat\<close>): IEEE rounding of the individual operations is not modelled, the
    order and shape of every arithmetic expression is.
  \<^item> A cohort label is the string the source writes (\<^verbatim>\<open>'Group 1'\<close>, \<^verbatim>\<open>'Group 2'\<close>); strings
    are ordered lexicographically by character code, which is SQLite's BINARY collation.
  \<^item> A table is the list of its rows, in insertion order. No column is ever NULL.
  \<^item> A date is a day number.
  \<^item> A \<^verbatim>\<open>DataFrame\<close> built from a list of dictionaries is the list of its rows; built from an
    empty list it has no columns.
  \<^item> An exception is a value of \<open>py_error\<close>; a fallible computation returns
    \<open>py_error + 'a\<close> with \<open>Inl\<close> the exception.
\<close>

record patient =
  patient_id :: int
  assigned_group :: string
  age :: int

record adherence =
  ma_patient_id :: int
  pdc_score :: rat

record admission =
  admission_id :: int
  ha_patient_id :: int
  admission_date :: int

text \<open>The SQLite connection after \<^verbatim>\<open>setup_database\<close>: the three tables.\<close>

record database =
  patients :: "patient list"
  medication_adherence :: "adherence list"
  hospital_admissions :: "admission list"

text \<open>The module-level configuration constants (lines 15--22), gathered in one record.\<close>

record config =
  TOTAL_PATIENTS :: int
  GROUP_1_RATIO :: rat
  ADHERENCE_THRESHOLD :: rat
  GROUP_1_ADHERENCE_RATE :: rat
  GROUP_2_ADHERENCE_RATE :: rat
  ADHERENT_PATIENT_ADMISSION_RATE :: rat
  NON_ADHERENT_PATIENT_ADMISSION_RATE :: rat
  COST_PER_ADMISSION :: int

definition source_config :: config where
  "source_config =
     \<lparr> TOTAL_PATIENTS = 17000,
       GROUP_1_RATIO = 1 / (205 / 100),
       ADHERENCE_THRESHOLD = 8 / 10,
       GROUP_1_ADHERENCE_RATE = 75 / 100,
       GROUP_2_ADHERENCE_RATE = (75 / 100) / (135 / 100),
       ADHERENT_PATIENT_ADMISSION_RATE = 15 / 100,
       NON_ADHERENT_PATIENT_ADMISSION_RATE = 40 / 100,
       COST_PER_ADMISSION = 14700 \<rparr>"

datatype py_error = IndexError | ZeroDivisionError | KeyError

section \<open>Python primitives\<close>

text \<open>Sequencing of fallible steps: the first exception aborts the rest.\<close>

definition py_bind :: "py_error + 'a \<Rightarrow> ('a \<Rightarrow> py_error + 'b) \<Rightarrow> py_error + 'b" where
  "py_bind m f = (case m of Inl e \<Rightarrow> Inl e | Inr x \<Rightarrow> f x)"

text \<open>\<^verbatim>\<open>a / b\<close>: true division raises on a zero divisor, for ints and floats alike.\<close>

definition truediv :: "rat \<Rightarrow> rat \<Rightarrow> py_error + rat" where
  "truediv a b = (if b = 0 then Inl ZeroDivisionError else Inr (a / b))"

text \<open>\<^verbatim>\<open>xs[i]\<close> for a literal index \<open>i \<ge> 0\<close>.\<close>

definition getitem :: "'a list \<Rightarrow> nat \<Rightarrow> py_error + 'a" where
  "getitem xs i = (if i < length xs then Inr (xs ! i) else Inl IndexError)"

text \<open>\<^verbatim>\<open>int(x)\<close> on a float truncates towards zero.\<close>

definition py_int :: "rat \<Rightarrow> int" where
  "py_int x = (if 0 \<le> x then \<lfloor>x\<rfloor> else \<lceil>x\<rceil>)"

text \<open>
  \<^verbatim>\<open>round(x, n)\<close>: the nearest multiple of \<open>10\<^sup>-\<^sup>n\<close>, an exact tie going to the even
  neighbour.
\<close>

definition round_half_even :: "rat \<Rightarrow> int" where
  "round_half_even y =
     (let f = \<lfloor>y\<rfloor>; d = y - of_int f
      in if d < 1 / 2 then f else if 1 / 2 < d then f + 1 else if even f then f else f + 1)"

definition py_round :: "rat \<Rightarrow> nat \<Rightarrow> rat" where
  "py_round x n = of_int (round_half_even (x * 10 ^ n)) / 10 ^ n"

text \<open>A value with at most \<open>n\<close> decimal places.\<close>

definition has_decimals :: "nat \<Rightarrow> rat \<Rightarrow> bool" where
  "has_decimals n x = (of_int \<lfloor>x * 10 ^ n\<rfloor> = x * 10 ^ n)"

section \<open>Phase 2: the two grouped queries\<close>

text \<open>\<^verbatim>\<open>GROUP BY g ORDER BY g\<close>: one output row per distinct label, in ascending order.\<close>

definition group_by_labels :: "string list \<Rightarrow> string list" where
  "group_by_labels gs = sort (remdups gs)"

text \<open>\<^verbatim>\<open>patients p JOIN medication_adherence ma ON p.patient_id = ma.patient_id\<close>\<close>

definition adherence_join :: "database \<Rightarrow> (patient \<times> adherence) list" where
  "adherence_join db =
     concat (map (\<lambda>p. map (Pair p)
                         (filter (\<lambda>ma. patient_id p = ma_patient_id ma) (medication_adherence db)))
                 (patients db))"

text \<open>
  The adherence query (lines 75--81). A result row is
  \<open>(assigned_group, COUNT( * ), SUM(CASE WHEN pdc_score >= threshold THEN 1 ELSE 0 END))\<close>.
\<close>

definition adherence_query :: "config \<Rightarrow> database \<Rightarrow> (string \<times> int \<times> int) list" where
  "adherence_query cfg db =
     (let joined = adherence_join db
      in map (\<lambda>g. let rows = filter (\<lambda>r. assigned_group (fst r) = g) joined
                  in (g, int (length rows),
                      sum_list (map (\<lambda>r. if ADHERENCE_THRESHOLD cfg \<le> pdc_score (snd r)
                                          then 1 else 0) rows)))
             (group_by_labels (map (\<lambda>r. assigned_group (fst r)) joined)))"

text \<open>
  \<^verbatim>\<open>patients p LEFT JOIN hospital_admissions ha ON p.patient_id = ha.patient_id\<close>: a patient
  without admissions yields one row whose admission columns are NULL (\<open>None\<close>).
\<close>

definition admissions_join :: "database \<Rightarrow> (patient \<times> admission option) list" where
  "admissions_join db =
     concat (map (\<lambda>p. let ms = filter (\<lambda>ha. patient_id p = ha_patient_id ha)
                                       (hospital_admissions db)
                      in if ms = [] then [(p, None)] else map (\<lambda>ha. (p, Some ha)) ms)
                 (patients db))"

text \<open>
  The admissions query (lines 91--97). A result row is
  \<open>(assigned_group, COUNT(DISTINCT p.patient_id), COUNT(ha.admission_id))\<close>; the second
  count skips the NULL rows.
\<close>

definition admissions_query :: "database \<Rightarrow> (string \<times> int \<times> int) list" where
  "admissions_query db =
     (let joined = admissions_join db
      in map (\<lambda>g. let rows = filter (\<lambda>r. assigned_group (fst r) = g) joined
                  in (g, int (length (remdups (map (\<lambda>r. patient_id (fst r)) rows))),
                      int (length (filter (\<lambda>r. snd r \<noteq> None) rows))))
             (group_by_labels (map (\<lambda>r. assigned_group (fst r)) joined)))"

section \<open>Phase 2 and 3: derived metrics and export\<close>

text \<open>The entries of the exported document.\<close>

record adherence_entry =
  ad_group :: string
  ad_total_patients :: int
  adherent_patients :: int
  adherence_rate :: rat

record admissions_entry =
  adm_group :: string
  adm_total_patients :: int
  total_admissions :: int
  admissions_per_1000 :: rat

record summary_findings =
  adherence_uplift_pct :: rat
  hospitalization_reduction_pct :: rat
  cost_savings :: rat

record final_results =
  adherence_analysis :: "adherence_entry list"
  admissions_analysis :: "admissions_entry list"
  summary :: summary_findings

text \<open>
  The list comprehension of lines 82--85 over the fetched rows. The division
  \<^verbatim>\<open>row[2]/row[1]\<close> can raise, so the comprehension can.
\<close>

fun adherence_entries :: "(string \<times> int \<times> int) list \<Rightarrow> py_error + adherence_entry list" where
  "adherence_entries [] = Inr []"
| "adherence_entries (row # rest) =
     py_bind (truediv (of_int (snd (snd row))) (of_int (fst (snd row)))) (\<lambda>q.
     py_bind (adherence_entries rest) (\<lambda>es.
       Inr (\<lparr> ad_group = fst row, ad_total_patients = fst (snd row),
              adherent_patients = snd (snd row), adherence_rate = q * 100 \<rparr> # es)))"

definition adherence_data :: "config \<Rightarrow> database \<Rightarrow> py_error + adherence_entry list" where
  "adherence_data cfg db = adherence_entries (adherence_query cfg db)"

text \<open>The list comprehension of lines 98--101.\<close>

fun admissions_entries :: "(string \<times> int \<times> int) list \<Rightarrow> py_error + admissions_entry list" where
  "admissions_entries [] = Inr []"
| "admissions_entries (row # rest) =
     py_bind (truediv (of_int (snd (snd row))) (of_int (fst (snd row)))) (\<lambda>q.
     py_bind (admissions_entries rest) (\<lambda>es.
       Inr (\<lparr> adm_group = fst row, adm_total_patients = fst (snd row),
              total_admissions = snd (snd row), admissions_per_1000 = q * 1000 \<rparr> # es)))"

definition admissions_data :: "database \<Rightarrow> py_error + admissions_entry list" where
  "admissions_data db = admissions_entries (admissions_query db)"

text \<open>
  The three derived metrics before rounding (lines 86--111), as
  \<open>(adherence_uplift, admission_reduction, total_cost_savings)\<close>, computed from the two
  entry lists in the order of the source.
\<close>

definition adherence_uplift_of :: "adherence_entry list \<Rightarrow> py_error + rat" where
  "adherence_uplift_of ad =
     py_bind (getitem ad 0) (\<lambda>a0.
     py_bind (getitem ad 1) (\<lambda>a1.
     py_bind (truediv (adherence_rate a0) (adherence_rate a1)) (\<lambda>q.
       Inr ((q - 1) * 100))))"

definition admission_reduction_of :: "admissions_entry list \<Rightarrow> py_error + rat" where
  "admission_reduction_of adm =
     py_bind (getitem adm 0) (\<lambda>m0.
     py_bind (getitem adm 1) (\<lambda>m1.
     py_bind (truediv (admissions_per_1000 m0) (admissions_per_1000 m1)) (\<lambda>q.
       Inr ((1 - q) * 100))))"

definition total_cost_savings_of :: "config \<Rightarrow> admissions_entry list \<Rightarrow> py_error + rat" where
  "total_cost_savings_of cfg adm =
     py_bind (getitem adm 1) (\<lambda>m1.
     py_bind (getitem adm 0) (\<lambda>m0.
       let group2_admissions_per_1000 = admissions_per_1000 m1;
           group1_patient_count = adm_total_patients m0;
           group1_total_admissions = total_admissions m0;
           expected_admissions_in_group1 =
             (group2_admissions_per_1000 / 1000) * of_int group1_patient_count;
           admissions_avoided = expected_admissions_in_group1 - of_int group1_total_admissions
       in Inr (admissions_avoided * of_int (COST_PER_ADMISSION cfg))))"

text \<open>Lines 72--122: everything up to and including the dictionary \<^verbatim>\<open>final_results\<close>.\<close>

definition compute_final_results :: "config \<Rightarrow> database \<Rightarrow> py_error + final_results" where
  "compute_final_results cfg db =
     py_bind (adherence_data cfg db) (\<lambda>ad.
     py_bind (adherence_uplift_of ad) (\<lambda>adherence_uplift.
     py_bind (admissions_data db) (\<lambda>adm.
     py_bind (admission_reduction_of adm) (\<lambda>admission_reduction.
     py_bind (total_cost_savings_of cfg adm) (\<lambda>total_cost_savings.
       Inr \<lparr> adherence_analysis = ad,
             admissions_analysis = adm,
             summary = \<lparr> adherence_uplift_pct = py_round adherence_uplift 2,
                         hospitalization_reduction_pct = py_round admission_reduction 2,
                         cost_savings = py_round total_cost_savings 2 \<rparr> \<rparr>)))))"

text \<open>
  \<^verbatim>\<open>run_analysis_and_export\<close>. The only state it touches is the file \<^verbatim>\<open>results.json\<close>, whose
  content (\<open>None\<close> while it does not exist) is passed in and returned. The file is opened
  and written at line 125, after \<^verbatim>\<open>final_results\<close> is complete; an exception before that
  leaves it as it was.
\<close>

definition run_analysis_and_export ::
  "config \<Rightarrow> database \<Rightarrow> final_results option \<Rightarrow> (py_error + unit) \<times> final_results option" where
  "run_analysis_and_export cfg db results_json =
     (case compute_final_results cfg db of
        Inl e \<Rightarrow> (Inl e, results_json)
      | Inr doc \<Rightarrow> (Inr (), Some doc))"

section \<open>Phase 1: data simulation\<close>

text \<open>
  The script draws from three pseudo-random generators: Python's \<^verbatim>\<open>random\<close> module, NumPy's
  global generator and Faker's. None is seeded, so what they return is an input of the model:
  a \<open>random_source\<close> gives, for each generator, the value its \<open>k\<close>-th call returns (counting
  from zero). The first loop makes all the \<^verbatim>\<open>randint\<close> calls before the second loop makes the
  first \<^verbatim>\<open>random()\<close> call, so the two kinds of call are numbered separately.
\<close>

record random_source =
  randint_65_95 :: "nat \<Rightarrow> int"
  random_random :: "nat \<Rightarrow> rat"
  poisson :: "nat \<Rightarrow> rat \<Rightarrow> nat"
  date_between :: "nat \<Rightarrow> int"

text \<open>
  \<^verbatim>\<open>random.uniform(a, b)\<close> is \<^verbatim>\<open>a + (b - a) * random()\<close>; \<open>u\<close> is the value of that
  \<^verbatim>\<open>random()\<close> call.
\<close>

definition uniform :: "rat \<Rightarrow> rat \<Rightarrow> rat \<Rightarrow> rat" where
  "uniform a b u = a + (b - a) * u"

text \<open>Line 29.\<close>

definition num_group_1 :: "config \<Rightarrow> int" where
  "num_group_1 cfg = py_int (of_int (TOTAL_PATIENTS cfg) * GROUP_1_RATIO cfg)"

text \<open>
  The first loop (lines 28--34): iteration \<open>i\<close> of \<^verbatim>\<open>range(1, TOTAL_PATIENTS + 1)\<close> makes call
  number \<open>i - 1\<close> of \<^verbatim>\<open>random.randint(65, 95)\<close> and appends one patient.
\<close>

definition generate_patients :: "config \<Rightarrow> random_source \<Rightarrow> patient list" where
  "generate_patients cfg rs =
     map (\<lambda>i. \<lparr> patient_id = i,
                 assigned_group = (if i \<le> num_group_1 cfg then ''Group 1'' else ''Group 2''),
                 age = randint_65_95 rs (nat (i - 1)) \<rparr>)
         [1..TOTAL_PATIENTS cfg]"

text \<open>
  The second loop (lines 36--41) over the rows of \<^verbatim>\<open>patients_df\<close>; \<open>k\<close> counts the
  \<^verbatim>\<open>random()\<close> values consumed so far. The condition of the conditional expression is
  evaluated first, then the chosen \<^verbatim>\<open>uniform\<close>.
\<close>

fun adherence_loop :: "config \<Rightarrow> random_source \<Rightarrow> nat \<Rightarrow> patient list \<Rightarrow> adherence list" where
  "adherence_loop cfg rs k [] = []"
| "adherence_loop cfg rs k (patient # rest) =
     (let target_adherence =
            (if assigned_group patient = ''Group 1'' then GROUP_1_ADHERENCE_RATE cfg
             else GROUP_2_ADHERENCE_RATE cfg);
          pdc =
            (if random_random rs k < target_adherence
             then uniform (ADHERENCE_THRESHOLD cfg) 1 (random_random rs (k + 1))
             else uniform (2 / 10) (ADHERENCE_THRESHOLD cfg - 1 / 100) (random_random rs (k + 1)))
      in \<lparr> ma_patient_id = patient_id patient, pdc_score = py_round pdc 4 \<rparr>
         # adherence_loop cfg rs (k + 2) rest)"

text \<open>
  \<^verbatim>\<open>pd.merge(patients_df, adherence_df, on='patient_id')\<close>: an inner join that keeps the order
  of the left frame. A frame without a \<^verbatim>\<open>patient_id\<close> column, that is an empty one, makes it
  raise \<^verbatim>\<open>KeyError\<close>.
\<close>

definition pd_merge :: "patient list \<Rightarrow> adherence list \<Rightarrow> py_error + (patient \<times> adherence) list" where
  "pd_merge patients_df adherence_df =
     (if patients_df = [] \<or> adherence_df = [] then Inl KeyError
      else Inr (concat (map (\<lambda>p. map (Pair p)
                                     (filter (\<lambda>ma. patient_id p = ma_patient_id ma) adherence_df))
                            patients_df)))"

text \<open>
  The state of the third loop (lines 43--56): the list and the counter of the source, and the
  number of calls made so far to \<^verbatim>\<open>np.random.poisson\<close> and to \<^verbatim>\<open>fake.date_between\<close>.
\<close>

record generator_state =
  admissions_list :: "admission list"
  admission_id_counter :: int
  poisson_calls :: nat
  date_calls :: nat

text \<open>The inner loop \<^verbatim>\<open>for _ in range(num_admissions)\<close> for one patient.\<close>

fun append_admissions :: "random_source \<Rightarrow> int \<Rightarrow> nat \<Rightarrow> generator_state \<Rightarrow> generator_state" where
  "append_admissions rs pid 0 st = st"
| "append_admissions rs pid (Suc n) st =
     append_admissions rs pid n
       (st \<lparr> admissions_list :=
                admissions_list st
                @ [\<lparr> admission_id = admission_id_counter st, ha_patient_id = pid,
                      admission_date = date_between rs (date_calls st) \<rparr>],
              admission_id_counter := admission_id_counter st + 1,
              date_calls := date_calls st + 1 \<rparr>)"

text \<open>The admission intensity of a patient (lines 47--48).\<close>

definition admission_prob :: "config \<Rightarrow> rat \<Rightarrow> rat" where
  "admission_prob cfg score =
     (let is_adherent = (ADHERENCE_THRESHOLD cfg \<le> score)
      in if is_adherent then ADHERENT_PATIENT_ADMISSION_RATE cfg
         else NON_ADHERENT_PATIENT_ADMISSION_RATE cfg)"

text \<open>The outer loop over the rows of \<^verbatim>\<open>full_patient_data\<close>.\<close>

fun admissions_loop ::
  "config \<Rightarrow> random_source \<Rightarrow> (patient \<times> adherence) list \<Rightarrow> generator_state \<Rightarrow> generator_state" where
  "admissions_loop cfg rs [] st = st"
| "admissions_loop cfg rs (row # rest) st =
     (let num_admissions = poisson rs (poisson_calls st) (admission_prob cfg (pdc_score (snd row)))
      in admissions_loop cfg rs rest
           (append_admissions rs (patient_id (fst row)) num_admissions
              (st \<lparr> poisson_calls := poisson_calls st + 1 \<rparr>)))"

text \<open>\<^verbatim>\<open>generate_synthetic_data\<close>: the three frames, or the exception of the merge.\<close>

definition generate_synthetic_data ::
  "config \<Rightarrow> random_source \<Rightarrow> py_error + (patient list \<times> adherence list \<times> admission list)" where
  "generate_synthetic_data cfg rs =
     (let patients_df = generate_patients cfg rs;
          adherence_df = adherence_loop cfg rs 0 patients_df
      in py_bind (pd_merge patients_df adherence_df) (\<lambda>full_patient_data.
           let st = admissions_loop cfg rs full_patient_data
                      \<lparr> admissions_list = [], admission_id_counter = 1,
                        poisson_calls = 0, date_calls = 0 \<rparr>
           in Inr (patients_df, adherence_df, admissions_list st)))"

section \<open>Reference notions for the properties\<close>

text \<open>The entry the comprehension of lines 82--85 builds from a fetched row whose count is not zero.\<close>

definition adherence_entry_of :: "string \<times> int \<times> int \<Rightarrow> adherence_entry" where
  "adherence_entry_of row =
     \<lparr> ad_group = fst row, ad_total_patients = fst (snd row), adherent_patients = snd (snd row),
       adherence_rate = of_int (snd (snd row)) / of_int (fst (snd row)) * 100 \<rparr>"

text \<open>The entry the comprehension of lines 98--101 builds from a fetched row whose count is not zero.\<close>

definition admissions_entry_of :: "string \<times> int \<times> int \<Rightarrow> admissions_entry" where
  "admissions_entry_of row =
     \<lparr> adm_group = fst row, adm_total_patients = fst (snd row), total_admissions = snd (snd row),
       admissions_per_1000 = of_int (snd (snd row)) / of_int (fst (snd row)) * 1000 \<rparr>"

text \<open>The patients of one cohort, in table order.\<close>

definition cohort :: "database \<Rightarrow> string \<Rightarrow> patient list" where
  "cohort db g = filter (\<lambda>p. assigned_group p = g) (patients db)"

text \<open>The adherence records that reference a patient.\<close>

definition adherence_records :: "database \<Rightarrow> patient \<Rightarrow> adherence list" where
  "adherence_records db p =
     filter (\<lambda>ma. patient_id p = ma_patient_id ma) (medication_adherence db)"

text \<open>The admission events that reference a patient.\<close>

definition admissions_of :: "database \<Rightarrow> patient \<Rightarrow> admission list" where
  "admissions_of db p =
     filter (\<lambda>ha. patient_id p = ha_patient_id ha) (hospital_admissions db)"

text \<open>The data model's invariant: every patient has exactly one adherence record.\<close>

definition one_to_one_adherence :: "database \<Rightarrow> bool" where
  "one_to_one_adherence db = list_all (\<lambda>p. length (adherence_records db p) = 1) (patients db)"


text \<open>A patient counts as adherent when a record of theirs reaches the threshold.\<close>

definition patient_is_adherent :: "config \<Rightarrow> database \<Rightarrow> patient \<Rightarrow> bool" where
  "patient_is_adherent cfg db p =
     (\<exists>ma\<in>set (adherence_records db p). ADHERENCE_THRESHOLD cfg \<le> pdc_score ma)"

text \<open>The rows one patient contributes to the left join.\<close>

definition admission_rows :: "database \<Rightarrow> patient \<Rightarrow> (patient \<times> admission option) list" where
  "admission_rows db p =
     (if admissions_of db p = [] then [(p, None)]
      else map (\<lambda>ha. (p, Some ha)) (admissions_of db p))"

section \<open>Reference notions and example data for the generator\<close>


text \<open>The target adherence rate of a patient's cohort (line 38).\<close>

definition target_adherence :: "config \<Rightarrow> patient \<Rightarrow> rat" where
  "target_adherence cfg p =
     (if assigned_group p = ''Group 1'' then GROUP_1_ADHERENCE_RATE cfg
      else GROUP_2_ADHERENCE_RATE cfg)"

text \<open>
  The patient ids of the admission events in the order of their creation: each row of the
  merged frame, in order, contributes as many copies of its patient id as the Poisson call
  of its turn returns for the patient's intensity; \<open>j\<close> numbers the call of the first row.
\<close>

fun event_patients :: "config \<Rightarrow> random_source \<Rightarrow> nat \<Rightarrow> (patient \<times> adherence) list \<Rightarrow> int list" where
  "event_patients cfg rs j [] = []"
| "event_patients cfg rs j (row # rest) =
     replicate (poisson rs j (admission_prob cfg (pdc_score (snd row)))) (patient_id (fst row))
     @ event_patients cfg rs (Suc j) rest"

text \<open>The state before the third loop (lines 43--44).\<close>

definition initial_state :: generator_state where
  "initial_state =
     \<lparr> admissions_list = [], admission_id_counter = 1, poisson_calls = 0, date_calls = 0 \<rparr>"

text \<open>The source's configuration with a population of five.\<close>

definition small_config :: config where
  "small_config = source_config \<lparr> TOTAL_PATIENTS := 5 \<rparr>"

text \<open>
  A random source: ages cycle through \<open>65..95\<close>, \<^verbatim>\<open>random()\<close> returns \<open>0.1, 0.5, 0.9, 0.25\<close>
  in turn, and dates are days relative to today, within the last year.
\<close>

definition example_source :: random_source where
  "example_source =
     \<lparr> randint_65_95 = (\<lambda>k. 65 + int (k * 7 mod 31)),
       random_random = (\<lambda>k. if k mod 4 = 0 then 1 / 10 else if k mod 4 = 1 then 1 / 2
                            else if k mod 4 = 2 then 9 / 10 else 1 / 4),
       poisson = (\<lambda>k lam. if lam = 15 / 100 then k div 2 mod 2 else 1 + k mod 2),
       date_between = (\<lambda>k. - int (k * 50 mod 365)) \<rparr>"

text \<open>What the generator returns for them.\<close>

definition generated_patients :: "patient list" where
  "generated_patients =
     [\<lparr>patient_id = 1, assigned_group = ''Group 1'', age = 65\<rparr>,
      \<lparr>patient_id = 2, assigned_group = ''Group 1'', age = 72\<rparr>,
      \<lparr>patient_id = 3, assigned_group = ''Group 2'', age = 79\<rparr>,
      \<lparr>patient_id = 4, assigned_group = ''Group 2'', age = 86\<rparr>,
      \<lparr>patient_id = 5, assigned_group = ''Group 2'', age = 93\<rparr>]"

definition generated_adherence :: "adherence list" where
  "generated_adherence =
     [\<lparr>ma_patient_id = 1, pdc_score = 9 / 10\<rparr>,
      \<lparr>ma_patient_id = 2, pdc_score = 3475 / 10000\<rparr>,
      \<lparr>ma_patient_id = 3, pdc_score = 9 / 10\<rparr>,
      \<lparr>ma_patient_id = 4, pdc_score = 3475 / 10000\<rparr>,
      \<lparr>ma_patient_id = 5, pdc_score = 9 / 10\<rparr>]"

definition generated_admissions :: "admission list" where
  "generated_admissions =
     [\<lparr>admission_id = 1, ha_patient_id = 2, admission_date = 0\<rparr>,
      \<lparr>admission_id = 2, ha_patient_id = 2, admission_date = - 50\<rparr>,
      \<lparr>admission_id = 3, ha_patient_id = 3, admission_date = - 100\<rparr>,
      \<lparr>admission_id = 4, ha_patient_id = 4, admission_date = - 150\<rparr>,
      \<lparr>admission_id = 5, ha_patient_id = 4, admission_date = - 200\<rparr>]"

section \<open>Example data\<close>

text \<open>A population of four: three patients in the first cohort, one in the second; patients 2 and 3
  have no admission.\<close>

definition example_db :: database where
  "example_db =
     \<lparr> patients =
         [\<lparr>patient_id = 1, assigned_group = ''Group 1'', age = 70\<rparr>,
          \<lparr>patient_id = 2, assigned_group = ''Group 1'', age = 81\<rparr>,
          \<lparr>patient_id = 3, assigned_group = ''Group 1'', age = 65\<rparr>,
          \<lparr>patient_id = 4, assigned_group = ''Group 2'', age = 95\<rparr>],
       medication_adherence =
         [\<lparr>ma_patient_id = 1, pdc_score = 9 / 10\<rparr>,
          \<lparr>ma_patient_id = 2, pdc_score = 5 / 10\<rparr>,
          \<lparr>ma_patient_id = 3, pdc_score = 5 / 10\<rparr>,
          \<lparr>ma_patient_id = 4, pdc_score = 85 / 100\<rparr>],
       hospital_admissions =
         [\<lparr>admission_id = 1, ha_patient_id = 1, admission_date = 100\<rparr>,
          \<lparr>admission_id = 2, ha_patient_id = 4, admission_date = 200\<rparr>,
          \<lparr>admission_id = 3, ha_patient_id = 4, admission_date = 300\<rparr>] \<rparr>"

definition example_doc :: final_results where
  "example_doc =
     \<lparr> adherence_analysis =
         [\<lparr>ad_group = ''Group 1'', ad_total_patients = 3, adherent_patients = 1,
           adherence_rate = 100 / 3\<rparr>,
          \<lparr>ad_group = ''Group 2'', ad_total_patients = 1, adherent_patients = 1,
           adherence_rate = 100\<rparr>],
       admissions_analysis =
         [\<lparr>adm_group = ''Group 1'', adm_total_patients = 3, total_admissions = 1,
           admissions_per_1000 = 1000 / 3\<rparr>,
          \<lparr>adm_group = ''Group 2'', adm_total_patients = 1, total_admissions = 2,
           admissions_per_1000 = 2000\<rparr>],
       summary =
         \<lparr>adherence_uplift_pct = - (6667 / 100),
          hospitalization_reduction_pct = 8333 / 100,
          cost_savings = 73500\<rparr> \<rparr>"

text \<open>Two patients, both in the first cohort: the second cohort is empty.\<close>

definition one_cohort_db :: database where
  "one_cohort_db =
     \<lparr> patients =
         [\<lparr>patient_id = 1, assigned_group = ''Group 1'', age = 70\<rparr>,
          \<lparr>patient_id = 2, assigned_group = ''Group 1'', age = 81\<rparr>],
       medication_adherence =
         [\<lparr>ma_patient_id = 1, pdc_score = 9 / 10\<rparr>,
          \<lparr>ma_patient_id = 2, pdc_score = 5 / 10\<rparr>],
       hospital_admissions =
         [\<lparr>admission_id = 1, ha_patient_id = 2, admission_date = 100\<rparr>] \<rparr>"

text \<open>The example population, with no adherent patient in the second cohort.\<close>

definition no_adherent_b_db :: database where
  "no_adherent_b_db =
     example_db \<lparr> medication_adherence :=
         [\<lparr>ma_patient_id = 1, pdc_score = 9 / 10\<rparr>,
          \<lparr>ma_patient_id = 2, pdc_score = 5 / 10\<rparr>,
          \<lparr>ma_patient_id = 3, pdc_score = 5 / 10\<rparr>,
          \<lparr>ma_patient_id = 4, pdc_score = 5 / 10\<rparr>] \<rparr>"

text \<open>The example population, with no admission in the second cohort.\<close>

definition no_admission_b_db :: database where
  "no_admission_b_db =
     example_db \<lparr> hospital_admissions :=
         [\<lparr>admission_id = 1, ha_patient_id = 1, admission_date = 100\<rparr>] \<rparr>"

text \<open>The example tables, each in reverse order.\<close>

definition permuted_db :: database where
  "permuted_db =
     \<lparr> patients = rev (patients example_db),
       medication_adherence = rev (medication_adherence example_db),
       hospital_admissions = rev (hospital_admissions example_db) \<rparr>"

section \<open>Properties of the aggregation\<close>

lemma group_by_labels_sorted: "sorted (group_by_labels gs)"
  by (simp add: group_by_labels_def)

lemma group_by_labels_distinct: "distinct (group_by_labels gs)"
  by (simp add: group_by_labels_def)

lemma group_by_labels_set: "set (group_by_labels gs) = set gs"
  by (simp add: group_by_labels_def)

lemma group_by_labels_cong: "set gs = set hs \<Longrightarrow> group_by_labels gs = group_by_labels hs"
  unfolding group_by_labels_def
  by (metis sorted_list_of_set_sort_remdups)

lemma adherence_entries_total:
  "\<forall>row\<in>set rows. fst (snd row) \<noteq> 0 \<Longrightarrow>
   adherence_entries rows = Inr (map adherence_entry_of rows)"
  by (induction rows) (simp_all add: py_bind_def truediv_def adherence_entry_of_def)

lemma admissions_entries_total:
  "\<forall>row\<in>set rows. fst (snd row) \<noteq> 0 \<Longrightarrow>
   admissions_entries rows = Inr (map admissions_entry_of rows)"
  by (induction rows) (simp_all add: py_bind_def truediv_def admissions_entry_of_def)

lemma filter_label_nonempty:
  "g \<in> set (group_by_labels (map f rows)) \<Longrightarrow> filter (\<lambda>r. f r = g) rows \<noteq> []"
  by (auto simp: group_by_labels_set filter_empty_conv)

lemma adherence_query_count_pos:
  assumes "row \<in> set (adherence_query cfg db)"
  shows "0 < fst (snd row)"
proof -
  from assms obtain g where g: "g \<in> set (group_by_labels (map (\<lambda>r. assigned_group (fst r)) (adherence_join db)))"
    and row: "fst (snd row) = int (length (filter (\<lambda>r. assigned_group (fst r) = g) (adherence_join db)))"
    by (auto simp: adherence_query_def Let_def)
  from filter_label_nonempty[OF g] row show ?thesis by simp
qed

lemma admissions_query_count_pos:
  assumes "row \<in> set (admissions_query db)"
  shows "0 < fst (snd row)"
proof -
  from assms obtain g where g: "g \<in> set (group_by_labels (map (\<lambda>r. assigned_group (fst r)) (admissions_join db)))"
    and row: "fst (snd row) = int (length (remdups (map (\<lambda>r. patient_id (fst r))
                 (filter (\<lambda>r. assigned_group (fst r) = g) (admissions_join db)))))"
    by (auto simp: admissions_query_def Let_def)
  from filter_label_nonempty[OF g] row show ?thesis by simp
qed

lemma adherence_data_total:
  "adherence_data cfg db = Inr (map adherence_entry_of (adherence_query cfg db))"
  unfolding adherence_data_def
  by (rule adherence_entries_total) (use adherence_query_count_pos in fastforce)

lemma admissions_data_total:
  "admissions_data db = Inr (map admissions_entry_of (admissions_query db))"
  unfolding admissions_data_def
  by (rule admissions_entries_total) (use admissions_query_count_pos in fastforce)

lemma filter_fst_concat:
  "(\<And>p r. r \<in> set (F p) \<Longrightarrow> fst r = p) \<Longrightarrow>
   filter (\<lambda>r. Q (fst r)) (concat (map F ps)) = concat (map F (filter Q ps))"
proof (induction ps)
  case Nil
  then show ?case by simp
next
  case (Cons p ps)
  have "filter (\<lambda>r. Q (fst r)) (F p) = (if Q p then F p else [])"
    using Cons.prems by (auto simp: filter_empty_conv filter_id_conv)
  moreover have "filter (\<lambda>r. Q (fst r)) (concat (map F ps)) = concat (map F (filter Q ps))"
    by (rule Cons.IH) (rule Cons.prems)
  ultimately show ?case by simp
qed

lemma length_concat_sum: "int (length (concat xss)) = (\<Sum>xs\<leftarrow>xss. int (length xs))"
  by (induction xss) simp_all

lemma sum_indicator_length:
  "(\<Sum>r\<leftarrow>rows. if P r then 1 else 0) = int (length (filter P rows))"
  by (induction rows) simp_all

lemma count_labels_sum:
  "(\<Sum>g\<leftarrow>group_by_labels (map f ps). int (length (filter (\<lambda>p. f p = g) ps))) = int (length ps)"
proof -
  have c: "length (filter (\<lambda>p. f p = g) ps) = count_list (map f ps) g" for g
    by (induction ps) simp_all
  have "(\<Sum>g\<leftarrow>group_by_labels (map f ps). int (length (filter (\<lambda>p. f p = g) ps)))
      = (\<Sum>g\<in>set (map f ps). int (count_list (map f ps) g))"
    by (simp add: sum_list_distinct_conv_sum_set group_by_labels_distinct group_by_labels_set c
             del: set_map)
  also have "\<dots> = int (\<Sum>g\<in>set (map f ps). count_list (map f ps) g)"
    by simp
  also have "\<dots> = int (length (map f ps))"
    by (subst sum_count_set) simp_all
  finally show ?thesis by simp
qed

lemma adherence_join_rows:
  "adherence_join db = concat (map (\<lambda>p. map (Pair p) (adherence_records db p)) (patients db))"
  by (simp add: adherence_join_def adherence_records_def)

lemma adherence_join_group:
  "filter (\<lambda>r. assigned_group (fst r) = g) (adherence_join db)
   = concat (map (\<lambda>p. map (Pair p) (adherence_records db p)) (cohort db g))"
  unfolding adherence_join_rows cohort_def
  by (rule filter_fst_concat) auto

lemma adherence_count_one_to_one:
  assumes "one_to_one_adherence db"
  shows "int (length (filter (\<lambda>r. assigned_group (fst r) = g) (adherence_join db)))
         = int (length (cohort db g))"
proof -
  have "(\<Sum>p\<leftarrow>cohort db g. int (length (adherence_records db p))) = (\<Sum>p\<leftarrow>cohort db g. 1)"
    by (rule arg_cong[where f = sum_list], rule map_cong)
       (use assms in \<open>auto simp: one_to_one_adherence_def list_all_iff cohort_def\<close>)
  then show ?thesis
    by (simp add: adherence_join_group length_concat_sum comp_def sum_list_triv)
qed

lemma adherent_count_one_to_one:
  assumes "one_to_one_adherence db"
  shows "(\<Sum>r\<leftarrow>filter (\<lambda>r. assigned_group (fst r) = g) (adherence_join db).
             if ADHERENCE_THRESHOLD cfg \<le> pdc_score (snd r) then 1 else 0)
         = int (length (filter (patient_is_adherent cfg db) (cohort db g)))"
proof -
  have one: "length (filter (\<lambda>ma. ADHERENCE_THRESHOLD cfg \<le> pdc_score ma) (adherence_records db p))
             = (if patient_is_adherent cfg db p then 1 else 0)"
    if "p \<in> set (cohort db g)" for p
  proof -
    from that assms have "length (adherence_records db p) = 1"
      by (simp add: one_to_one_adherence_def list_all_iff cohort_def)
    then obtain ma where "adherence_records db p = [ma]"
      by (cases "adherence_records db p") simp_all
    then show ?thesis by (simp add: patient_is_adherent_def)
  qed
  have "(\<Sum>r\<leftarrow>filter (\<lambda>r. assigned_group (fst r) = g) (adherence_join db).
             if ADHERENCE_THRESHOLD cfg \<le> pdc_score (snd r) then 1 else 0)
        = int (length (filter (\<lambda>r. ADHERENCE_THRESHOLD cfg \<le> pdc_score (snd r))
             (concat (map (\<lambda>p. map (Pair p) (adherence_records db p)) (cohort db g)))))"
    by (simp add: sum_indicator_length adherence_join_group)
  also have "\<dots> = (\<Sum>p\<leftarrow>cohort db g. int (length (filter (\<lambda>ma. ADHERENCE_THRESHOLD cfg \<le> pdc_score ma)
                        (adherence_records db p))))"
    by (simp add: filter_concat length_concat_sum comp_def filter_map)
  also have "\<dots> = (\<Sum>p\<leftarrow>cohort db g. if patient_is_adherent cfg db p then 1 else 0)"
    by (rule arg_cong[where f = sum_list], rule map_cong) (simp_all add: one)
  also have "\<dots> = int (length (filter (patient_is_adherent cfg db) (cohort db g)))"
    by (rule sum_indicator_length)
  finally show ?thesis .
qed

lemma adherence_labels_one_to_one:
  assumes "one_to_one_adherence db"
  shows "group_by_labels (map (\<lambda>r. assigned_group (fst r)) (adherence_join db))
         = group_by_labels (map assigned_group (patients db))"
proof (rule group_by_labels_cong)
  have "adherence_records db p \<noteq> []" if "p \<in> set (patients db)" for p
    using that assms by (auto simp: one_to_one_adherence_def list_all_iff)
  then show "set (map (\<lambda>r. assigned_group (fst r)) (adherence_join db))
             = set (map assigned_group (patients db))"
    by (auto simp: adherence_join_rows image_iff) (metis ex_in_conv set_empty)
qed

lemma admissions_join_rows:
  "admissions_join db = concat (map (admission_rows db) (patients db))"
  unfolding admissions_join_def Let_def
  by (rule arg_cong[where f = concat], rule map_cong)
     (simp_all add: admission_rows_def admissions_of_def)

lemma admission_rows_fst: "r \<in> set (admission_rows db p) \<Longrightarrow> fst r = p"
  by (auto simp: admission_rows_def split: if_splits)

lemma admission_rows_nonempty: "admission_rows db p \<noteq> []"
  by (simp add: admission_rows_def)

lemma admission_rows_events:
  "length (filter (\<lambda>r. snd r \<noteq> None) (admission_rows db p)) = length (admissions_of db p)"
  by (simp add: admission_rows_def filter_map comp_def)

lemma admissions_join_group:
  "filter (\<lambda>r. assigned_group (fst r) = g) (admissions_join db)
   = concat (map (admission_rows db) (cohort db g))"
  unfolding admissions_join_rows cohort_def
  by (rule filter_fst_concat) (rule admission_rows_fst)

lemma admissions_join_ids:
  "set (map (\<lambda>r. patient_id (fst r)) (concat (map (admission_rows db) ps)))
   = patient_id ` set ps"
proof (induction ps)
  case Nil
  then show ?case by simp
next
  case (Cons p ps)
  have "(\<lambda>r. patient_id (fst r)) ` set (admission_rows db p) = {patient_id p}"
    by (auto simp: admission_rows_def image_iff split: if_splits)
       (metis ex_in_conv set_empty)
  with Cons show ?case by (simp add: image_Un)
qed

lemma admissions_distinct_count:
  "int (length (remdups (map (\<lambda>r. patient_id (fst r))
       (filter (\<lambda>r. assigned_group (fst r) = g) (admissions_join db)))))
   = int (card (patient_id ` set (cohort db g)))"
  unfolding admissions_join_group length_remdups_card_conv admissions_join_ids ..

lemma admissions_event_count:
  "int (length (filter (\<lambda>r. snd r \<noteq> None)
       (filter (\<lambda>r. assigned_group (fst r) = g) (admissions_join db))))
   = (\<Sum>p\<leftarrow>cohort db g. int (length (admissions_of db p)))"
proof -
  have "int (length (filter (\<lambda>r. snd r \<noteq> None) (concat (map (admission_rows db) ps))))
        = (\<Sum>p\<leftarrow>ps. int (length (admissions_of db p)))" for ps
    by (induction ps) (simp_all only: admission_rows_events concat.simps list.map filter.simps
          filter_append length_append list.size sum_list.Nil sum_list.Cons of_nat_add of_nat_0)
  then show ?thesis
    by (simp only: admissions_join_group)
qed

lemma admissions_labels:
  "group_by_labels (map (\<lambda>r. assigned_group (fst r)) (admissions_join db))
   = group_by_labels (map assigned_group (patients db))"
proof (rule group_by_labels_cong)
  have "(\<lambda>r. assigned_group (fst r)) ` set (admission_rows db p) = {assigned_group p}" for p
    by (auto simp: admission_rows_def image_iff split: if_splits)
       (metis ex_in_conv set_empty)
  then have "(\<Union>p\<in>set (patients db). (\<lambda>r. assigned_group (fst r)) ` set (admission_rows db p))
             = assigned_group ` set (patients db)"
    by auto
  then show "set (map (\<lambda>r. assigned_group (fst r)) (admissions_join db))
             = set (map assigned_group (patients db))"
    by (simp add: admissions_join_rows image_UN)
qed

lemma cohort_distinct_card:
  "distinct (map patient_id (patients db)) \<Longrightarrow>
   card (patient_id ` set (cohort db g)) = length (cohort db g)"
  unfolding cohort_def
  by (metis distinct_card distinct_map_filter length_map set_map)

lemma adherence_query_rows:
  assumes "row \<in> set (adherence_query cfg db)"
  shows "\<exists>g. row = (g, int (length (filter (\<lambda>r. assigned_group (fst r) = g) (adherence_join db))),
                 (\<Sum>r\<leftarrow>filter (\<lambda>r. assigned_group (fst r) = g) (adherence_join db).
                    if ADHERENCE_THRESHOLD cfg \<le> pdc_score (snd r) then 1 else 0))"
  using assms by (auto simp: adherence_query_def Let_def)

lemma adherence_query_labels:
  "map fst (adherence_query cfg db)
   = group_by_labels (map (\<lambda>r. assigned_group (fst r)) (adherence_join db))"
  by (simp add: adherence_query_def Let_def comp_def)

lemma admissions_query_rows:
  assumes "row \<in> set (admissions_query db)"
  shows "\<exists>g. row = (g, int (card (patient_id ` set (cohort db g))),
                 (\<Sum>p\<leftarrow>cohort db g. int (length (admissions_of db p))))"
  using assms
  by (auto simp only: admissions_query_def Let_def set_map admissions_distinct_count
        admissions_event_count)

lemma admissions_query_labels:
  "map fst (admissions_query db) = group_by_labels (map assigned_group (patients db))"
  by (simp add: admissions_query_def Let_def comp_def admissions_labels)

lemma adherence_entry_of_simps:
  "ad_group (adherence_entry_of row) = fst row"
  "ad_total_patients (adherence_entry_of row) = fst (snd row)"
  "adherent_patients (adherence_entry_of row) = snd (snd row)"
  "adherence_rate (adherence_entry_of row) = of_int (snd (snd row)) / of_int (fst (snd row)) * 100"
  by (simp_all add: adherence_entry_of_def)

lemma admissions_entry_of_simps:
  "adm_group (admissions_entry_of row) = fst row"
  "adm_total_patients (admissions_entry_of row) = fst (snd row)"
  "total_admissions (admissions_entry_of row) = snd (snd row)"
  "admissions_per_1000 (admissions_entry_of row) = of_int (snd (snd row)) / of_int (fst (snd row)) * 1000"
  by (simp_all add: admissions_entry_of_def)

lemma rate_percent_bounds:
  fixes a t :: int
  assumes "0 \<le> a" "a \<le> t" "0 < t"
  shows "0 \<le> (of_int a / of_int t * 100 :: rat)" "(of_int a / of_int t * 100 :: rat) \<le> 100"
proof -
  from assms show "0 \<le> (of_int a / of_int t * 100 :: rat)" by simp
  from assms have "(of_int a :: rat) \<le> of_int t" by simp
  with assms have "(of_int a / of_int t :: rat) \<le> 1" by (simp add: divide_le_eq)
  then have "(of_int a / of_int t :: rat) * 100 \<le> 1 * 100"
    by (rule mult_right_mono) simp
  then show "(of_int a / of_int t * 100 :: rat) \<le> 100" by simp
qed

lemma adherence_entry_sound:
  assumes "e \<in> set (map adherence_entry_of (adherence_query cfg db))"
  shows "0 \<le> adherent_patients e \<and> adherent_patients e \<le> ad_total_patients e \<and>
         0 < ad_total_patients e"
proof -
  from assms obtain row where row: "row \<in> set (adherence_query cfg db)"
    and e: "e = adherence_entry_of row" by auto
  from adherence_query_rows[OF row] obtain g where
    r: "row = (g, int (length (filter (\<lambda>r. assigned_group (fst r) = g) (adherence_join db))),
                 (\<Sum>r\<leftarrow>filter (\<lambda>r. assigned_group (fst r) = g) (adherence_join db).
                    if ADHERENCE_THRESHOLD cfg \<le> pdc_score (snd r) then 1 else 0))" ..
  have "0 < fst (snd row)" by (rule adherence_query_count_pos[OF row])
  moreover have "snd (snd row) \<le> fst (snd row)" "0 \<le> snd (snd row)"
    unfolding r snd_conv fst_conv sum_indicator_length
    by (simp_all only: of_nat_le_iff length_filter_le of_nat_0_le_iff)
  ultimately show ?thesis by (simp add: e adherence_entry_of_simps)
qed

lemma adherence_entry_one_to_one:
  assumes "one_to_one_adherence db"
    and "e \<in> set (map adherence_entry_of (adherence_query cfg db))"
  shows "ad_total_patients e = int (length (cohort db (ad_group e))) \<and>
         adherent_patients e
           = int (length (filter (patient_is_adherent cfg db) (cohort db (ad_group e))))"
proof -
  from assms(2) obtain row where row: "row \<in> set (adherence_query cfg db)"
    and e: "e = adherence_entry_of row" by auto
  from adherence_query_rows[OF row] obtain g where
    r: "row = (g, int (length (filter (\<lambda>r. assigned_group (fst r) = g) (adherence_join db))),
                 (\<Sum>r\<leftarrow>filter (\<lambda>r. assigned_group (fst r) = g) (adherence_join db).
                    if ADHERENCE_THRESHOLD cfg \<le> pdc_score (snd r) then 1 else 0))" ..
  show ?thesis
    unfolding e adherence_entry_of_simps r fst_conv snd_conv
    using adherence_count_one_to_one[OF assms(1)] adherent_count_one_to_one[OF assms(1)]
    by simp
qed

lemma adherence_total_sum:
  assumes "one_to_one_adherence db"
  shows "sum_list (map ad_total_patients (map adherence_entry_of (adherence_query cfg db)))
         = int (length (patients db))"
proof -
  have "map ad_total_patients (map adherence_entry_of (adherence_query cfg db))
        = map (\<lambda>g. int (length (filter (\<lambda>p. assigned_group p = g) (patients db))))
              (group_by_labels (map assigned_group (patients db)))"
    by (simp add: adherence_query_def Let_def comp_def adherence_entry_of_simps
          adherence_count_one_to_one[OF assms] adherence_labels_one_to_one[OF assms] cohort_def)
  then show ?thesis by (simp only: count_labels_sum)
qed

lemma admissions_total_sum:
  assumes "distinct (map patient_id (patients db))"
  shows "sum_list (map adm_total_patients (map admissions_entry_of (admissions_query db)))
         = int (length (patients db))"
proof -
  have "map adm_total_patients (map admissions_entry_of (admissions_query db))
        = map (\<lambda>g. int (length (filter (\<lambda>p. assigned_group p = g) (patients db))))
              (group_by_labels (map assigned_group (patients db)))"
    unfolding admissions_query_def Let_def map_map comp_def admissions_entry_of_simps
      fst_conv snd_conv admissions_distinct_count admissions_labels
      cohort_distinct_card[OF assms]
    by (simp add: cohort_def)
  then show ?thesis by (simp only: count_labels_sum)
qed





lemma example_run:
  "run_analysis_and_export source_config example_db results_json = (Inr (), Some example_doc)"
  by code_simp

lemma example_one_to_one: "one_to_one_adherence example_db"
  by code_simp



lemma example_adherence_data:
  "adherence_data source_config example_db = Inr (adherence_analysis example_doc)"
  by code_simp

lemma example_admissions_data:
  "admissions_data example_db = Inr (admissions_analysis example_doc)"
  by code_simp

section \<open>The claims about the aggregation\<close>




text \<open>
  Claim C2. The adherence summary never raises. In each entry the adherent count lies
  between zero and the total, the total is positive, the rate is adherent/total * 100 and lies
  in \<open>[0, 100]\<close>. When every patient has exactly one adherence record, there is one entry per
  cohort label, in ascending order, its total is the number of patients of the cohort and its
  adherent count is the number of those whose score reaches the threshold.
\<close>

theorem adherence_summary_per_cohort:
  "\<exists>es. adherence_data cfg db = Inr es \<and>
     (\<forall>e\<in>set es. 0 \<le> adherent_patients e \<and> adherent_patients e \<le> ad_total_patients e \<and>
        0 < ad_total_patients e \<and>
        adherence_rate e = of_int (adherent_patients e) / of_int (ad_total_patients e) * 100 \<and>
        0 \<le> adherence_rate e \<and> adherence_rate e \<le> 100) \<and>
     (one_to_one_adherence db \<longrightarrow>
        map ad_group es = group_by_labels (map assigned_group (patients db)) \<and>
        (\<forall>e\<in>set es.
           ad_total_patients e = int (length (cohort db (ad_group e))) \<and>
           adherent_patients e
             = int (length (filter (patient_is_adherent cfg db) (cohort db (ad_group e))))))"
proof (intro exI conjI ballI impI)
  let ?es = "map adherence_entry_of (adherence_query cfg db)"
  show "adherence_data cfg db = Inr ?es" by (rule adherence_data_total)
  fix e assume e: "e \<in> set ?es"
  note s = adherence_entry_sound[OF e]
  from s show "0 \<le> adherent_patients e" "adherent_patients e \<le> ad_total_patients e"
    "0 < ad_total_patients e" by simp_all
  from e show "adherence_rate e = of_int (adherent_patients e) / of_int (ad_total_patients e) * 100"
    by (auto simp: adherence_entry_of_simps)
  then show "0 \<le> adherence_rate e" "adherence_rate e \<le> 100"
    using s rate_percent_bounds[of "adherent_patients e" "ad_total_patients e"] by simp_all
next
  assume o: "one_to_one_adherence db"
  show "map ad_group (map adherence_entry_of (adherence_query cfg db))
        = group_by_labels (map assigned_group (patients db))"
    using adherence_query_labels[of cfg db] adherence_labels_one_to_one[OF o]
    by (simp add: comp_def adherence_entry_of_simps)
  fix e assume e: "e \<in> set (map adherence_entry_of (adherence_query cfg db))"
  from adherence_entry_one_to_one[OF o e]
  show "ad_total_patients e = int (length (cohort db (ad_group e)))"
    "adherent_patients e
       = int (length (filter (patient_is_adherent cfg db) (cohort db (ad_group e))))"
    by simp_all
qed

text \<open>The example population: two non-empty cohorts, rates \<open>33.33...\<close> and \<open>100\<close>.\<close>

theorem adherence_summary_per_cohort_witness:
  "one_to_one_adherence example_db \<and>
   (\<exists>es. adherence_data source_config example_db = Inr es \<and>
      map ad_group es = [''Group 1'', ''Group 2''] \<and>
      map ad_total_patients es = [3, 1] \<and> map adherent_patients es = [1, 1] \<and>
      map adherence_rate es = [100 / 3, 100] \<and>
      list_all (\<lambda>e. ad_total_patients e = int (length (cohort example_db (ad_group e)))) es \<and>
      list_all (\<lambda>e. 0 \<le> adherence_rate e \<and> adherence_rate e \<le> 100) es)"
proof -
  from adherence_summary_per_cohort[of source_config example_db] example_one_to_one
  obtain es where es: "adherence_data source_config example_db = Inr es"
    and range: "\<forall>e\<in>set es. 0 \<le> adherence_rate e \<and> adherence_rate e \<le> 100"
    and count: "\<forall>e\<in>set es. ad_total_patients e = int (length (cohort example_db (ad_group e)))"
    by blast
  from es have v: "es = adherence_analysis example_doc"
    by (simp add: example_adherence_data)
  have "map ad_group es = [''Group 1'', ''Group 2'']" "map ad_total_patients es = [3, 1]"
    "map adherent_patients es = [1, 1]" "map adherence_rate es = [100 / 3, 100]"
    by (simp_all add: v example_doc_def)
  with es range count example_one_to_one show ?thesis
    by (auto simp: list_all_iff)
qed

text \<open>
  Claim C4. The admissions summary never raises and has one entry per cohort label of the
  patient table, in ascending order. Its patient count is the number of distinct patient ids of
  the cohort, whether or not they have admissions; its admission count is the sum, over the
  patients of the cohort, of their admission events; admissions-per-1000 is
  admissions/patients * 1000. With distinct patient ids the patient count is the size of the
  cohort and the counts sum to the population size; with one adherence record per patient the
  totals of the adherence summary sum to the population size as well.
\<close>

theorem admissions_summary_per_cohort:
  "\<exists>es. admissions_data db = Inr es \<and>
     map adm_group es = group_by_labels (map assigned_group (patients db)) \<and>
     (\<forall>e\<in>set es.
        adm_total_patients e = int (card (patient_id ` set (cohort db (adm_group e)))) \<and>
        total_admissions e = (\<Sum>p\<leftarrow>cohort db (adm_group e). int (length (admissions_of db p))) \<and>
        admissions_per_1000 e
          = of_int (total_admissions e) / of_int (adm_total_patients e) * 1000) \<and>
     (distinct (map patient_id (patients db)) \<longrightarrow>
        (\<forall>e\<in>set es. adm_total_patients e = int (length (cohort db (adm_group e)))) \<and>
        sum_list (map adm_total_patients es) = int (length (patients db))) \<and>
     (one_to_one_adherence db \<longrightarrow>
        (\<exists>as. adherence_data cfg db = Inr as \<and>
              sum_list (map ad_total_patients as) = int (length (patients db))))"
proof (intro exI conjI ballI impI)
  let ?es = "map admissions_entry_of (admissions_query db)"
  show "admissions_data db = Inr ?es" by (rule admissions_data_total)
  show "map adm_group ?es = group_by_labels (map assigned_group (patients db))"
    using admissions_query_labels[of db] by (simp add: comp_def admissions_entry_of_simps)
  show "adherence_data cfg db = Inr (map adherence_entry_of (adherence_query cfg db))"
    by (rule adherence_data_total)
  {
    fix e assume "e \<in> set ?es"
    then obtain row where row: "row \<in> set (admissions_query db)"
      and e: "e = admissions_entry_of row" by auto
    from admissions_query_rows[OF row] obtain g where
      r: "row = (g, int (card (patient_id ` set (cohort db g))),
                 (\<Sum>p\<leftarrow>cohort db g. int (length (admissions_of db p))))" ..
    show "adm_total_patients e = int (card (patient_id ` set (cohort db (adm_group e))))"
      by (simp add: e r admissions_entry_of_simps)
    show "total_admissions e = (\<Sum>p\<leftarrow>cohort db (adm_group e). int (length (admissions_of db p)))"
      by (simp add: e r admissions_entry_of_simps)
    show "admissions_per_1000 e
          = of_int (total_admissions e) / of_int (adm_total_patients e) * 1000"
      by (simp add: e admissions_entry_of_simps)
    assume "distinct (map patient_id (patients db))"
    then show "adm_total_patients e = int (length (cohort db (adm_group e)))"
      by (simp add: e r admissions_entry_of_simps cohort_distinct_card)
  }
  show "sum_list (map adm_total_patients ?es) = int (length (patients db))"
    if "distinct (map patient_id (patients db))"
    by (rule admissions_total_sum[OF that])
  show "sum_list (map ad_total_patients (map adherence_entry_of (adherence_query cfg db)))
        = int (length (patients db))" if "one_to_one_adherence db"
    by (rule adherence_total_sum[OF that])
qed

text \<open>The example population: patients 2 and 3 have no admission and are counted.\<close>

theorem admissions_summary_per_cohort_witness:
  "distinct (map patient_id (patients example_db)) \<and> one_to_one_adherence example_db \<and>
   (\<exists>es as. admissions_data example_db = Inr es \<and>
      adherence_data source_config example_db = Inr as \<and>
      map adm_group es = [''Group 1'', ''Group 2''] \<and>
      map adm_total_patients es = [3, 1] \<and> map total_admissions es = [1, 2] \<and>
      map admissions_per_1000 es = [1000 / 3, 2000] \<and>
      list_all (\<lambda>e. adm_total_patients e = int (length (cohort example_db (adm_group e)))) es \<and>
      sum_list (map adm_total_patients es) = int (length (patients example_db)) \<and>
      sum_list (map ad_total_patients as) = int (length (patients example_db)))"
proof -
  have d: "distinct (map patient_id (patients example_db))"
    by (simp add: example_db_def)
  from admissions_summary_per_cohort[of example_db source_config] d example_one_to_one
  obtain es as where es: "admissions_data example_db = Inr es"
    and count: "\<forall>e\<in>set es. adm_total_patients e = int (length (cohort example_db (adm_group e)))"
    and total: "sum_list (map adm_total_patients es) = int (length (patients example_db))"
    and as: "adherence_data source_config example_db = Inr as"
    and total': "sum_list (map ad_total_patients as) = int (length (patients example_db))"
    by blast
  from es have v: "es = admissions_analysis example_doc"
    by (simp add: example_admissions_data)
  have "map adm_group es = [''Group 1'', ''Group 2'']" "map adm_total_patients es = [3, 1]"
    "map total_admissions es = [1, 2]" "map admissions_per_1000 es = [1000 / 3, 2000]"
    by (simp_all add: v example_doc_def)
  with es as count total total' d example_one_to_one show ?thesis
    by (auto simp: list_all_iff)
qed


lemma has_decimals_py_round: "has_decimals n (py_round x n)"
  by (simp add: has_decimals_def py_round_def)

lemma compute_final_results_success:
  assumes "compute_final_results cfg db = Inr doc"
  shows "adherence_analysis doc = map adherence_entry_of (adherence_query cfg db) \<and>
         admissions_analysis doc = map admissions_entry_of (admissions_query db) \<and>
         1 < length (adherence_analysis doc) \<and> 1 < length (admissions_analysis doc) \<and>
         adherence_rate (adherence_analysis doc ! 1) \<noteq> 0 \<and>
         admissions_per_1000 (admissions_analysis doc ! 1) \<noteq> 0 \<and>
         summary doc = \<lparr>
           adherence_uplift_pct =
             py_round ((adherence_rate (adherence_analysis doc ! 0)
                        / adherence_rate (adherence_analysis doc ! 1) - 1) * 100) 2,
           hospitalization_reduction_pct =
             py_round ((1 - admissions_per_1000 (admissions_analysis doc ! 0)
                            / admissions_per_1000 (admissions_analysis doc ! 1)) * 100) 2,
           cost_savings =
             py_round ((admissions_per_1000 (admissions_analysis doc ! 1) / 1000
                          * of_int (adm_total_patients (admissions_analysis doc ! 0))
                        - of_int (total_admissions (admissions_analysis doc ! 0)))
                       * of_int (COST_PER_ADMISSION cfg)) 2 \<rparr>"
  using assms
  unfolding compute_final_results_def adherence_data_total admissions_data_total
    adherence_uplift_of_def admission_reduction_of_def total_cost_savings_of_def
    getitem_def truediv_def py_bind_def Let_def
  by (auto split: if_splits)





lemma adherence_join_labels_subset:
  "set (map (\<lambda>r. assigned_group (fst r)) (adherence_join db))
   \<subseteq> set (map assigned_group (patients db))"
  by (auto simp: adherence_join_rows)

lemma adherence_query_length:
  "length (adherence_query cfg db)
   \<le> length (group_by_labels (map assigned_group (patients db)))"
proof -
  have "length (adherence_query cfg db)
        = length (group_by_labels (map (\<lambda>r. assigned_group (fst r)) (adherence_join db)))"
    by (simp add: adherence_query_def Let_def)
  also have "\<dots> = card (set (map (\<lambda>r. assigned_group (fst r)) (adherence_join db)))"
    by (metis distinct_card group_by_labels_distinct group_by_labels_set)
  also have "\<dots> \<le> card (set (map assigned_group (patients db)))"
    by (rule card_mono) (simp_all only: List.finite_set adherence_join_labels_subset)
  also have "\<dots> = length (group_by_labels (map assigned_group (patients db)))"
    by (metis distinct_card group_by_labels_distinct group_by_labels_set)
  finally show ?thesis .
qed

lemma short_adherence_data_fails:
  assumes "adherence_data cfg db = Inr es" "length es < 2"
  shows "compute_final_results cfg db = Inl IndexError"
  using assms
  by (simp add: compute_final_results_def py_bind_def adherence_uplift_of_def getitem_def)

lemma zero_adherence_rate_fails:
  assumes "adherence_data cfg db = Inr es" "1 < length es" "adherence_rate (es ! 1) = 0"
  shows "compute_final_results cfg db = Inl ZeroDivisionError"
  using assms
  by (auto simp: compute_final_results_def py_bind_def adherence_uplift_of_def getitem_def
        truediv_def)

lemma zero_admissions_rate_fails:
  assumes "adherence_data cfg db = Inr es" "1 < length es" "adherence_rate (es ! 1) \<noteq> 0"
    and "admissions_data db = Inr ms" "1 < length ms" "admissions_per_1000 (ms ! 1) = 0"
  shows "compute_final_results cfg db = Inl ZeroDivisionError"
  using assms
  by (auto simp: compute_final_results_def py_bind_def adherence_uplift_of_def getitem_def
        truediv_def admission_reduction_of_def)

text \<open>
  Claim C8, as amended. When the patient table holds fewer than two cohorts, the positional
  access to the second entry of the adherence summary raises \<open>IndexError\<close>. With two entries,
  a zero adherence rate or a zero admissions-per-1000 of the second cohort raises
  \<open>ZeroDivisionError\<close>. Whatever the exception, it is returned to the caller and
  \<^verbatim>\<open>results.json\<close> is left as it was; the file is written only with a document all of whose
  metrics were computed.
\<close>

theorem degenerate_input_fails_fast:
  "(length (group_by_labels (map assigned_group (patients db))) < 2 \<longrightarrow>
      run_analysis_and_export cfg db results_json = (Inl IndexError, results_json)) \<and>
   (adherence_data cfg db = Inr es \<and> 1 < length es \<and> adherence_rate (es ! 1) = 0 \<longrightarrow>
      run_analysis_and_export cfg db results_json = (Inl ZeroDivisionError, results_json)) \<and>
   (adherence_data cfg db = Inr es \<and> 1 < length es \<and> adherence_rate (es ! 1) \<noteq> 0 \<and>
    admissions_data db = Inr ms \<and> 1 < length ms \<and> admissions_per_1000 (ms ! 1) = 0 \<longrightarrow>
      run_analysis_and_export cfg db results_json = (Inl ZeroDivisionError, results_json)) \<and>
   (fst (run_analysis_and_export cfg db results_json) = Inl e \<longrightarrow>
      snd (run_analysis_and_export cfg db results_json) = results_json) \<and>
   (run_analysis_and_export cfg db results_json = (Inr (), written) \<longrightarrow>
      (\<exists>doc. written = Some doc \<and> compute_final_results cfg db = Inr doc \<and>
         1 < length (adherence_analysis doc) \<and> 1 < length (admissions_analysis doc) \<and>
         adherence_rate (adherence_analysis doc ! 1) \<noteq> 0 \<and>
         admissions_per_1000 (admissions_analysis doc ! 1) \<noteq> 0))"
proof (intro conjI impI)
  assume "length (group_by_labels (map assigned_group (patients db))) < 2"
  with adherence_query_length[of cfg db]
  have "length (map adherence_entry_of (adherence_query cfg db)) < 2" by simp
  from short_adherence_data_fails[OF adherence_data_total this]
  show "run_analysis_and_export cfg db results_json = (Inl IndexError, results_json)"
    by (simp add: run_analysis_and_export_def)
next
  assume "adherence_data cfg db = Inr es \<and> 1 < length es \<and> adherence_rate (es ! 1) = 0"
  then have "compute_final_results cfg db = Inl ZeroDivisionError"
    using zero_adherence_rate_fails by blast
  then show "run_analysis_and_export cfg db results_json = (Inl ZeroDivisionError, results_json)"
    by (simp add: run_analysis_and_export_def)
next
  assume "adherence_data cfg db = Inr es \<and> 1 < length es \<and> adherence_rate (es ! 1) \<noteq> 0 \<and>
    admissions_data db = Inr ms \<and> 1 < length ms \<and> admissions_per_1000 (ms ! 1) = 0"
  then have "compute_final_results cfg db = Inl ZeroDivisionError"
    using zero_admissions_rate_fails by blast
  then show "run_analysis_and_export cfg db results_json = (Inl ZeroDivisionError, results_json)"
    by (simp add: run_analysis_and_export_def)
next
  assume "fst (run_analysis_and_export cfg db results_json) = Inl e"
  then show "snd (run_analysis_and_export cfg db results_json) = results_json"
    by (simp add: run_analysis_and_export_def split: sum.splits)
next
  assume "run_analysis_and_export cfg db results_json = (Inr (), written)"
  then obtain doc where w: "written = Some doc" and c: "compute_final_results cfg db = Inr doc"
    by (auto simp: run_analysis_and_export_def split: sum.splits)
  from compute_final_results_success[OF c] w c
  show "\<exists>doc. written = Some doc \<and> compute_final_results cfg db = Inr doc \<and>
         1 < length (adherence_analysis doc) \<and> 1 < length (admissions_analysis doc) \<and>
         adherence_rate (adherence_analysis doc ! 1) \<noteq> 0 \<and>
         admissions_per_1000 (admissions_analysis doc ! 1) \<noteq> 0"
    by blast
qed

lemma one_cohort_labels:
  "length (group_by_labels (map assigned_group (patients one_cohort_db))) < 2"
  by code_simp

lemma no_adherent_b_data:
  "adherence_data source_config no_adherent_b_db =
     Inr [\<lparr>ad_group = ''Group 1'', ad_total_patients = 3, adherent_patients = 1,
           adherence_rate = 100 / 3\<rparr>,
          \<lparr>ad_group = ''Group 2'', ad_total_patients = 1, adherent_patients = 0,
           adherence_rate = 0\<rparr>]"
  by code_simp

lemma no_admission_b_adherence:
  "adherence_data source_config no_admission_b_db = Inr (adherence_analysis example_doc)"
  by code_simp

lemma no_admission_b_data:
  "admissions_data no_admission_b_db =
     Inr [\<lparr>adm_group = ''Group 1'', adm_total_patients = 3, total_admissions = 1,
           admissions_per_1000 = 1000 / 3\<rparr>,
          \<lparr>adm_group = ''Group 2'', adm_total_patients = 1, total_admissions = 0,
           admissions_per_1000 = 0\<rparr>]"
  by code_simp

text \<open>
  One run per failure, each over an older \<^verbatim>\<open>results.json\<close> that survives, and a successful
  run.
\<close>

theorem degenerate_input_fails_fast_witness:
  "length (group_by_labels (map assigned_group (patients one_cohort_db))) < 2 \<and>
   run_analysis_and_export source_config one_cohort_db (Some example_doc)
     = (Inl IndexError, Some example_doc) \<and>
   run_analysis_and_export source_config no_adherent_b_db (Some example_doc)
     = (Inl ZeroDivisionError, Some example_doc) \<and>
   run_analysis_and_export source_config no_admission_b_db (Some example_doc)
     = (Inl ZeroDivisionError, Some example_doc) \<and>
   run_analysis_and_export source_config example_db None = (Inr (), Some example_doc) \<and>
   compute_final_results source_config example_db = Inr example_doc"
proof -
  have 1: "run_analysis_and_export source_config one_cohort_db (Some example_doc)
     = (Inl IndexError, Some example_doc)"
    using degenerate_input_fails_fast[of one_cohort_db source_config "Some example_doc"]
      one_cohort_labels by blast
  have 2: "run_analysis_and_export source_config no_adherent_b_db (Some example_doc)
     = (Inl ZeroDivisionError, Some example_doc)"
    using degenerate_input_fails_fast[of no_adherent_b_db source_config "Some example_doc",
        where es = "[\<lparr>ad_group = ''Group 1'', ad_total_patients = 3, adherent_patients = 1,
           adherence_rate = 100 / 3\<rparr>,
          \<lparr>ad_group = ''Group 2'', ad_total_patients = 1, adherent_patients = 0,
           adherence_rate = 0\<rparr>]"]
      no_adherent_b_data by simp
  have 3: "run_analysis_and_export source_config no_admission_b_db (Some example_doc)
     = (Inl ZeroDivisionError, Some example_doc)"
    using degenerate_input_fails_fast[of no_admission_b_db source_config "Some example_doc",
        where es = "adherence_analysis example_doc"
          and ms = "[\<lparr>adm_group = ''Group 1'', adm_total_patients = 3, total_admissions = 1,
           admissions_per_1000 = 1000 / 3\<rparr>,
          \<lparr>adm_group = ''Group 2'', adm_total_patients = 1, total_admissions = 0,
           admissions_per_1000 = 0\<rparr>]"]
      no_admission_b_adherence no_admission_b_data
    by (simp add: example_doc_def)
  have 4: "compute_final_results source_config example_db = Inr example_doc"
    using degenerate_input_fails_fast[of example_db source_config None _ _ _ "Some example_doc"]
      example_run[of None] by simp
  from 1 2 3 4 one_cohort_labels example_run[of None] show ?thesis by blast
qed

text \<open>
  Claim C8 as stated fails: with an empty second cohort the exception is \<open>IndexError\<close>, not a
  division by zero.
\<close>

theorem empty_cohort_index_error_counterexample:
  "cohort one_cohort_db ''Group 2'' = [] \<and>
   run_analysis_and_export source_config one_cohort_db None = (Inl IndexError, None) \<and>
   fst (run_analysis_and_export source_config one_cohort_db None) \<noteq> Inl ZeroDivisionError"
proof -
  have r: "run_analysis_and_export source_config one_cohort_db None = (Inl IndexError, None)"
    by code_simp
  have "cohort one_cohort_db ''Group 2'' = []"
    by (simp add: cohort_def one_cohort_db_def)
  with r show ?thesis by simp
qed


lemma perm_length_filter:
  "mset xs = mset ys \<Longrightarrow> length (filter P xs) = length (filter P ys)"
  by (metis mset_filter mset_eq_length)

lemma perm_sum_list:
  fixes f :: "'a \<Rightarrow> int"
  shows "mset xs = mset ys \<Longrightarrow> sum_list (map f xs) = sum_list (map f ys)"
  by (metis mset_map sum_mset_sum_list)

lemma perm_filter: "mset xs = mset ys \<Longrightarrow> mset (filter P xs) = mset (filter P ys)"
  by simp

lemma perm_labels:
  "mset xs = mset ys \<Longrightarrow> group_by_labels (map f xs) = group_by_labels (map f ys)"
  by (rule group_by_labels_cong) (metis mset_eq_setD set_map)

lemma perm_distinct_count:
  "mset xs = mset ys \<Longrightarrow> length (remdups (map f xs)) = length (remdups (map f ys))"
  by (metis length_remdups_card_conv mset_eq_setD set_map)

lemma perm_concat_map:
  assumes "mset ps = mset qs" and "\<And>p. mset (F p) = mset (G p)"
  shows "mset (concat (map F ps)) = mset (concat (map G qs))"
proof -
  have "mset (concat (map F ps)) = sum_mset (image_mset (\<lambda>p. mset (F p)) (mset ps))"
    by (simp add: mset_concat comp_def flip: sum_mset_sum_list)
  also have "\<dots> = sum_mset (image_mset (\<lambda>p. mset (G p)) (mset qs))"
    by (simp add: assms)
  also have "\<dots> = mset (concat (map G qs))"
    by (simp add: mset_concat comp_def flip: sum_mset_sum_list)
  finally show ?thesis .
qed

lemma perm_adherence_join:
  assumes "mset (patients db) = mset (patients db')"
    and "mset (medication_adherence db) = mset (medication_adherence db')"
  shows "mset (adherence_join db) = mset (adherence_join db')"
  unfolding adherence_join_def
  by (rule perm_concat_map[OF assms(1)]) (simp add: assms(2))

lemma perm_admission_rows:
  assumes "mset (hospital_admissions db) = mset (hospital_admissions db')"
  shows "mset (admission_rows db p) = mset (admission_rows db' p)"
proof -
  have m: "mset (admissions_of db p) = mset (admissions_of db' p)"
    by (simp add: admissions_of_def assms)
  then have "admissions_of db p = [] \<longleftrightarrow> admissions_of db' p = []"
    by (metis mset_zero_iff)
  with m show ?thesis by (simp add: admission_rows_def)
qed

lemma perm_admissions_join:
  assumes "mset (patients db) = mset (patients db')"
    and "mset (hospital_admissions db) = mset (hospital_admissions db')"
  shows "mset (admissions_join db) = mset (admissions_join db')"
  unfolding admissions_join_rows
  by (rule perm_concat_map[OF assms(1)]) (rule perm_admission_rows[OF assms(2)])

lemma perm_adherence_query:
  assumes "mset (adherence_join db) = mset (adherence_join db')"
  shows "adherence_query cfg db = adherence_query cfg db'"
  unfolding adherence_query_def Let_def
  by (simp add: perm_labels[OF assms] perm_length_filter[OF assms]
        perm_sum_list[OF perm_filter[OF assms]])

lemma perm_admissions_query:
  assumes "mset (admissions_join db) = mset (admissions_join db')"
  shows "admissions_query db = admissions_query db'"
  unfolding admissions_query_def Let_def
  by (simp add: perm_labels[OF assms] perm_distinct_count[OF perm_filter[OF assms]]
        perm_length_filter[OF assms])

text \<open>
  Claim C9. The outcome of a run, the written document included, depends only on the
  contents of the three tables, not on the order of their rows: two databases with the same
  rows give the same result. Both summaries list the cohorts strictly ascending by label.
\<close>

theorem aggregator_function_of_entity_sets:
  assumes "mset (patients db) = mset (patients db')"
    and "mset (medication_adherence db) = mset (medication_adherence db')"
    and "mset (hospital_admissions db) = mset (hospital_admissions db')"
  shows "run_analysis_and_export cfg db results_json
           = run_analysis_and_export cfg db' results_json \<and>
         (\<exists>es ms. adherence_data cfg db = Inr es \<and> admissions_data db = Inr ms \<and>
            sorted_wrt (<) (map ad_group es) \<and> sorted_wrt (<) (map adm_group ms))"
proof -
  have q: "adherence_query cfg db = adherence_query cfg db'"
    by (rule perm_adherence_query[OF perm_adherence_join[OF assms(1,2)]])
  have q': "admissions_query db = admissions_query db'"
    by (rule perm_admissions_query[OF perm_admissions_join[OF assms(1,3)]])
  have "compute_final_results cfg db = compute_final_results cfg db'"
    by (simp add: compute_final_results_def adherence_data_def admissions_data_def q q')
  then have 1: "run_analysis_and_export cfg db results_json
           = run_analysis_and_export cfg db' results_json"
    by (simp add: run_analysis_and_export_def)
  have "map ad_group (map adherence_entry_of (adherence_query cfg db))
        = group_by_labels (map (\<lambda>r. assigned_group (fst r)) (adherence_join db))"
    using adherence_query_labels[of cfg db] by (simp add: comp_def adherence_entry_of_simps)
  then have 2: "sorted_wrt (<) (map ad_group (map adherence_entry_of (adherence_query cfg db)))"
    by (simp only: strict_sorted_iff group_by_labels_sorted group_by_labels_distinct)
  have "map adm_group (map admissions_entry_of (admissions_query db))
        = group_by_labels (map assigned_group (patients db))"
    using admissions_query_labels[of db] by (simp add: comp_def admissions_entry_of_simps)
  then have 3: "sorted_wrt (<) (map adm_group (map admissions_entry_of (admissions_query db)))"
    by (simp only: strict_sorted_iff group_by_labels_sorted group_by_labels_distinct)
  from 1 2 3 adherence_data_total[of cfg db] admissions_data_total[of db]
  show ?thesis by blast
qed

text \<open>
  The example tables with their rows reordered: the run writes the same document, cohort
  \<^verbatim>\<open>'Group 1'\<close> first.
\<close>

theorem aggregator_function_of_entity_sets_witness:
  "mset (patients permuted_db) = mset (patients example_db) \<and>
   mset (medication_adherence permuted_db) = mset (medication_adherence example_db) \<and>
   mset (hospital_admissions permuted_db) = mset (hospital_admissions example_db) \<and>
   patients permuted_db \<noteq> patients example_db \<and>
   run_analysis_and_export source_config permuted_db None = (Inr (), Some example_doc) \<and>
   map ad_group (adherence_analysis example_doc) = [''Group 1'', ''Group 2'']"
proof -
  have h: "mset (patients permuted_db) = mset (patients example_db)"
    "mset (medication_adherence permuted_db) = mset (medication_adherence example_db)"
    "mset (hospital_admissions permuted_db) = mset (hospital_admissions example_db)"
    by (simp_all add: permuted_db_def)
  have n: "patients permuted_db \<noteq> patients example_db"
    by (simp add: permuted_db_def example_db_def)
  from aggregator_function_of_entity_sets[OF h, of source_config None]
  have "run_analysis_and_export source_config permuted_db None
        = run_analysis_and_export source_config example_db None" by blast
  then have r: "run_analysis_and_export source_config permuted_db None = (Inr (), Some example_doc)"
    by (simp only: example_run)
  have "map ad_group (adherence_analysis example_doc) = [''Group 1'', ''Group 2'']"
    by (simp add: example_doc_def)
  with h n r show ?thesis by blast
qed

section \<open>Properties of the generator\<close>


lemma generate_patients_ids: "map patient_id (generate_patients cfg rs) = [1..TOTAL_PATIENTS cfg]"
  by (simp add: generate_patients_def comp_def)

lemma generate_patients_length: "length (generate_patients cfg rs) = nat (TOTAL_PATIENTS cfg)"
  by (simp add: generate_patients_def)

lemma generate_patients_distinct: "distinct (map patient_id (generate_patients cfg rs))"
  by (simp add: generate_patients_ids)


lemma adherence_loop_ids:
  "map ma_patient_id (adherence_loop cfg rs k ps) = map patient_id ps"
  by (induction ps arbitrary: k) (simp_all add: Let_def)

lemma adherence_loop_length: "length (adherence_loop cfg rs k ps) = length ps"
  by (induction ps arbitrary: k) (simp_all add: Let_def)

lemma adherence_loop_nth:
  "i < length ps \<Longrightarrow>
   adherence_loop cfg rs k ps ! i =
     \<lparr> ma_patient_id = patient_id (ps ! i),
       pdc_score = py_round
         (if random_random rs (k + 2 * i) < target_adherence cfg (ps ! i)
          then uniform (ADHERENCE_THRESHOLD cfg) 1 (random_random rs (k + 2 * i + 1))
          else uniform (2 / 10) (ADHERENCE_THRESHOLD cfg - 1 / 100)
                 (random_random rs (k + 2 * i + 1))) 4 \<rparr>"
proof (induction ps arbitrary: k i)
  case Nil
  then show ?case by simp
next
  case (Cons p ps)
  show ?case
  proof (cases i)
    case 0
    then show ?thesis by (simp add: Let_def target_adherence_def)
  next
    case (Suc j)
    with Cons.prems have "j < length ps" by simp
    from Cons.IH[OF this, of "k + 2"] Suc show ?thesis
      by (simp add: Let_def add.commute add.left_commute)
  qed
qed

lemma round_half_even_lower: "\<lfloor>y\<rfloor> \<le> round_half_even y"
  by (simp add: round_half_even_def Let_def)

lemma round_half_even_upper: "round_half_even y \<le> \<lceil>y\<rceil>"
proof (cases "y - of_int \<lfloor>y\<rfloor> < 1 / 2")
  case True
  then have "round_half_even y = \<lfloor>y\<rfloor>" by (simp add: round_half_even_def Let_def)
  then show ?thesis by (simp add: floor_le_ceiling)
next
  case False
  then have "of_int \<lfloor>y\<rfloor> \<noteq> y" by auto
  then have "\<lceil>y\<rceil> = \<lfloor>y\<rfloor> + 1"
    by (metis ceiling_altdef)
  moreover have "round_half_even y \<le> \<lfloor>y\<rfloor> + 1"
    by (simp add: round_half_even_def Let_def)
  ultimately show ?thesis by simp
qed

lemma py_round_lower:
  assumes "has_decimals n lo" "lo \<le> x"
  shows "lo \<le> py_round x n"
proof -
  have p: "(0::rat) < 10 ^ n" by simp
  from assms(1) have l: "lo * 10 ^ n = of_int \<lfloor>lo * 10 ^ n\<rfloor>"
    unfolding has_decimals_def by (rule sym)
  from assms(2) have "lo * 10 ^ n \<le> x * 10 ^ n" by (simp add: mult_right_mono)
  then have "\<lfloor>lo * 10 ^ n\<rfloor> \<le> \<lfloor>x * 10 ^ n\<rfloor>" by (rule floor_mono)
  also have "\<dots> \<le> round_half_even (x * 10 ^ n)" by (rule round_half_even_lower)
  finally have "(of_int \<lfloor>lo * 10 ^ n\<rfloor> :: rat) \<le> of_int (round_half_even (x * 10 ^ n))"
    by simp
  with l have "lo * 10 ^ n \<le> of_int (round_half_even (x * 10 ^ n))" by simp
  with p show ?thesis by (simp add: py_round_def pos_le_divide_eq)
qed

lemma py_round_upper:
  assumes "has_decimals n hi" "x \<le> hi"
  shows "py_round x n \<le> hi"
proof -
  have p: "(0::rat) < 10 ^ n" by simp
  from assms(1) have h: "hi * 10 ^ n = of_int \<lfloor>hi * 10 ^ n\<rfloor>"
    unfolding has_decimals_def by (rule sym)
  from assms(2) have "x * 10 ^ n \<le> hi * 10 ^ n" by (simp add: mult_right_mono)
  then have "\<lceil>x * 10 ^ n\<rceil> \<le> \<lceil>hi * 10 ^ n\<rceil>" by (rule ceiling_mono)
  also have "\<dots> = \<lfloor>hi * 10 ^ n\<rfloor>" by (subst h) simp
  finally have "round_half_even (x * 10 ^ n) \<le> \<lfloor>hi * 10 ^ n\<rfloor>"
    using round_half_even_upper[of "x * 10 ^ n"] by simp
  then have "(of_int (round_half_even (x * 10 ^ n)) :: rat) \<le> of_int \<lfloor>hi * 10 ^ n\<rfloor>"
    by simp
  with h have "of_int (round_half_even (x * 10 ^ n)) \<le> hi * 10 ^ n" by simp
  with p show ?thesis by (simp add: py_round_def pos_divide_le_eq)
qed

lemma uniform_bounds:
  assumes "a \<le> b" "0 \<le> u" "u \<le> 1"
  shows "a \<le> uniform a b u" "uniform a b u \<le> b"
proof -
  from assms have "0 \<le> (b - a) * u" by simp
  then show "a \<le> uniform a b u" by (simp add: uniform_def)
  from assms have "(b - a) * u \<le> (b - a) * 1" by (intro mult_left_mono) simp_all
  then show "uniform a b u \<le> b" by (simp add: uniform_def)
qed

lemma has_decimals_diff:
  assumes "has_decimals n x" "has_decimals n y"
  shows "has_decimals n (x - y)"
proof -
  from assms(1) have x: "x * 10 ^ n = of_int \<lfloor>x * 10 ^ n\<rfloor>"
    unfolding has_decimals_def by (rule sym)
  from assms(2) have y: "y * 10 ^ n = of_int \<lfloor>y * 10 ^ n\<rfloor>"
    unfolding has_decimals_def by (rule sym)
  have "(x - y) * 10 ^ n = x * 10 ^ n - y * 10 ^ n" by (simp add: algebra_simps)
  also have "\<dots> = of_int (\<lfloor>x * 10 ^ n\<rfloor> - \<lfloor>y * 10 ^ n\<rfloor>)"
    by (subst x, subst y) simp
  finally show ?thesis unfolding has_decimals_def by (metis floor_of_int)
qed

lemma has_decimals_consts: "has_decimals 4 (1 / 100)" "has_decimals 4 (2 / 10)" "has_decimals 4 1"
  by (simp_all add: has_decimals_def)

lemma filter_key_unique:
  "distinct (map f xs) \<Longrightarrow> i < length xs \<Longrightarrow> filter (\<lambda>x. f (xs ! i) = f x) xs = [xs ! i]"
proof (induction xs arbitrary: i)
  case Nil
  then show ?case by simp
next
  case (Cons x xs)
  show ?case
  proof (cases i)
    case 0
    from Cons.prems have "\<forall>y\<in>set xs. f x \<noteq> f y" by auto
    then have "filter (\<lambda>y. f x = f y) xs = []" by (simp add: filter_empty_conv)
    with 0 show ?thesis by simp
  next
    case (Suc j)
    with Cons.prems have j: "j < length xs" and d: "distinct (map f xs)" by simp_all
    from Cons.prems j have "f (xs ! j) \<noteq> f x" by (metis distinct.simps(2) image_eqI list.set_map list.simps(9) nth_mem)
    with Cons.IH[OF d j] Suc show ?thesis by simp
  qed
qed

lemma concat_singletons: "concat (map (\<lambda>x. [x]) zs) = zs"
  by (induction zs) simp_all

lemma pd_merge_zip:
  assumes "ps \<noteq> []" "distinct (map patient_id ps)" "map ma_patient_id as = map patient_id ps"
  shows "pd_merge ps as = Inr (zip ps as)"
proof -
  from assms(3) have len: "length as = length ps" by (metis length_map)
  with assms(1) have ne: "as \<noteq> []" by auto
  from assms(2,3) have d: "distinct (map ma_patient_id as)" by simp
  have "map (\<lambda>p. map (Pair p) (filter (\<lambda>ma. patient_id p = ma_patient_id ma) as)) ps
        = map (\<lambda>x. [x]) (zip ps as)"
  proof (rule nth_equalityI)
    show "length (map (\<lambda>p. map (Pair p) (filter (\<lambda>ma. patient_id p = ma_patient_id ma) as)) ps)
          = length (map (\<lambda>x. [x]) (zip ps as))"
      by (simp add: len)
  next
    fix i
    assume "i < length (map (\<lambda>p. map (Pair p) (filter (\<lambda>ma. patient_id p = ma_patient_id ma) as)) ps)"
    then have i: "i < length ps" by simp
    with len have i': "i < length as" by simp
    from assms(3) i i' have "patient_id (ps ! i) = ma_patient_id (as ! i)"
      by (metis nth_map)
    with filter_key_unique[OF d i']
    have "filter (\<lambda>ma. patient_id (ps ! i) = ma_patient_id ma) as = [as ! i]" by simp
    with i i' show "map (\<lambda>p. map (Pair p) (filter (\<lambda>ma. patient_id p = ma_patient_id ma) as)) ps ! i
          = map (\<lambda>x. [x]) (zip ps as) ! i"
      by simp
  qed
  then have "concat (map (\<lambda>p. map (Pair p) (filter (\<lambda>ma. patient_id p = ma_patient_id ma) as)) ps)
             = zip ps as"
    by (simp only: concat_singletons)
  with assms(1) ne show ?thesis by (simp add: pd_merge_def)
qed

lemma generate_synthetic_data_success:
  assumes "0 < TOTAL_PATIENTS cfg"
  shows "generate_synthetic_data cfg rs =
     Inr (generate_patients cfg rs, adherence_loop cfg rs 0 (generate_patients cfg rs),
          admissions_list (admissions_loop cfg rs
             (zip (generate_patients cfg rs) (adherence_loop cfg rs 0 (generate_patients cfg rs)))
             initial_state))"
proof -
  from assms have "generate_patients cfg rs \<noteq> []"
    using generate_patients_length[of cfg rs] by auto
  from pd_merge_zip[OF this generate_patients_distinct adherence_loop_ids]
  show ?thesis
    by (simp add: generate_synthetic_data_def Let_def py_bind_def initial_state_def)
qed

lemma map_upt_split: "map f [0..<a + b] = map f [0..<a] @ map (\<lambda>i. f (a + i)) [0..<b]"
  by (induction b) simp_all

lemma append_admissions_closed:
  "append_admissions rs pid n st =
     st \<lparr> admissions_list :=
            admissions_list st
            @ map (\<lambda>i. \<lparr> admission_id = admission_id_counter st + int i, ha_patient_id = pid,
                          admission_date = date_between rs (date_calls st + i) \<rparr>) [0..<n],
          admission_id_counter := admission_id_counter st + int n,
          date_calls := date_calls st + n \<rparr>"
proof (induction n arbitrary: st)
  case 0
  then show ?case by simp
next
  case (Suc n)
  have "map (\<lambda>i. \<lparr> admission_id = admission_id_counter st + int i, ha_patient_id = pid,
                    admission_date = date_between rs (date_calls st + i) \<rparr>) [0..<1 + n]
        = [\<lparr> admission_id = admission_id_counter st, ha_patient_id = pid,
              admission_date = date_between rs (date_calls st) \<rparr>]
          @ map (\<lambda>i. \<lparr> admission_id = admission_id_counter st + 1 + int i, ha_patient_id = pid,
                    admission_date = date_between rs (date_calls st + 1 + i) \<rparr>) [0..<n]"
    by (subst map_upt_split) (simp add: add.assoc)
  then show ?case
    by (simp add: Suc.IH add.assoc)
qed


lemma admissions_loop_counters:
  "admission_id_counter (admissions_loop cfg rs rows st)
     = admission_id_counter st + int (length (event_patients cfg rs (poisson_calls st) rows)) \<and>
   date_calls (admissions_loop cfg rs rows st)
     = date_calls st + length (event_patients cfg rs (poisson_calls st) rows)"
  by (induction rows arbitrary: st) (simp_all add: Let_def append_admissions_closed)












lemma adherence_loop_score:
  assumes thr: "has_decimals 4 (ADHERENCE_THRESHOLD cfg)" "21 / 100 \<le> ADHERENCE_THRESHOLD cfg"
      "ADHERENCE_THRESHOLD cfg \<le> 1"
    and rnd: "\<forall>k. 0 \<le> random_random rs k \<and> random_random rs k < 1"
    and i: "i < length ps"
  shows "ma_patient_id (adherence_loop cfg rs 0 ps ! i) = patient_id (ps ! i) \<and>
     (random_random rs (2 * i) < target_adherence cfg (ps ! i) \<longrightarrow>
        pdc_score (adherence_loop cfg rs 0 ps ! i)
          = py_round (uniform (ADHERENCE_THRESHOLD cfg) 1 (random_random rs (2 * i + 1))) 4 \<and>
        ADHERENCE_THRESHOLD cfg \<le> uniform (ADHERENCE_THRESHOLD cfg) 1 (random_random rs (2 * i + 1)) \<and>
        uniform (ADHERENCE_THRESHOLD cfg) 1 (random_random rs (2 * i + 1)) \<le> 1 \<and>
        ADHERENCE_THRESHOLD cfg \<le> pdc_score (adherence_loop cfg rs 0 ps ! i) \<and>
        pdc_score (adherence_loop cfg rs 0 ps ! i) \<le> 1) \<and>
     (\<not> random_random rs (2 * i) < target_adherence cfg (ps ! i) \<longrightarrow>
        pdc_score (adherence_loop cfg rs 0 ps ! i)
          = py_round (uniform (2 / 10) (ADHERENCE_THRESHOLD cfg - 1 / 100)
                        (random_random rs (2 * i + 1))) 4 \<and>
        2 / 10 \<le> uniform (2 / 10) (ADHERENCE_THRESHOLD cfg - 1 / 100) (random_random rs (2 * i + 1)) \<and>
        uniform (2 / 10) (ADHERENCE_THRESHOLD cfg - 1 / 100) (random_random rs (2 * i + 1))
          \<le> ADHERENCE_THRESHOLD cfg - 1 / 100 \<and>
        2 / 10 \<le> pdc_score (adherence_loop cfg rs 0 ps ! i) \<and>
        pdc_score (adherence_loop cfg rs 0 ps ! i) \<le> ADHERENCE_THRESHOLD cfg - 1 / 100 \<and>
        pdc_score (adherence_loop cfg rs 0 ps ! i) < ADHERENCE_THRESHOLD cfg)"
proof -
  let ?t = "ADHERENCE_THRESHOLD cfg"
  let ?u = "random_random rs (2 * i + 1)"
  from rnd have u: "0 \<le> ?u" "?u \<le> 1" by (simp_all add: less_imp_le)
  note n = adherence_loop_nth[OF i, of cfg rs 0, simplified]
  have hi: "?t \<le> uniform ?t 1 ?u" "uniform ?t 1 ?u \<le> 1"
    by (rule uniform_bounds[OF thr(3) u])+
  from thr(2) have "2 / 10 \<le> ?t - 1 / 100" by simp
  then have lo: "2 / 10 \<le> uniform (2 / 10) (?t - 1 / 100) ?u"
    "uniform (2 / 10) (?t - 1 / 100) ?u \<le> ?t - 1 / 100"
    by (rule uniform_bounds[OF _ u])+
  have d: "has_decimals 4 (?t - 1 / 100)"
    by (rule has_decimals_diff[OF thr(1) has_decimals_consts(1)])
  have rhi: "?t \<le> py_round (uniform ?t 1 ?u) 4" "py_round (uniform ?t 1 ?u) 4 \<le> 1"
    by (rule py_round_lower[OF thr(1) hi(1)], rule py_round_upper[OF has_decimals_consts(3) hi(2)])
  have rlo: "2 / 10 \<le> py_round (uniform (2 / 10) (?t - 1 / 100) ?u) 4"
    "py_round (uniform (2 / 10) (?t - 1 / 100) ?u) 4 \<le> ?t - 1 / 100"
    by (rule py_round_lower[OF has_decimals_consts(2) lo(1)], rule py_round_upper[OF d lo(2)])
  from rlo(2) have lt: "py_round (uniform (2 / 10) (?t - 1 / 100) ?u) 4 < ?t" by simp
  show ?thesis
    unfolding n using hi lo rhi rlo lt by simp
qed


text \<open>
  Claim C10. Under the same conditions every generated score lies in \<open>[0.2, 1]\<close>, has at most
  four decimal places, and does not lie strictly between \<open>threshold - 0.01\<close> and the
  threshold.
\<close>

theorem generated_score_range:
  assumes "0 < TOTAL_PATIENTS cfg"
    and "has_decimals 4 (ADHERENCE_THRESHOLD cfg)" "21 / 100 \<le> ADHERENCE_THRESHOLD cfg"
      "ADHERENCE_THRESHOLD cfg \<le> 1"
    and "\<forall>k. 0 \<le> random_random rs k \<and> random_random rs k < 1"
  shows "\<exists>ps as hs. generate_synthetic_data cfg rs = Inr (ps, as, hs) \<and>
     (\<forall>a\<in>set as. 2 / 10 \<le> pdc_score a \<and> pdc_score a \<le> 1 \<and> has_decimals 4 (pdc_score a) \<and>
        \<not> (ADHERENCE_THRESHOLD cfg - 1 / 100 < pdc_score a \<and>
           pdc_score a < ADHERENCE_THRESHOLD cfg))"
proof (intro exI conjI ballI)
  let ?ps = "generate_patients cfg rs"
  let ?as = "adherence_loop cfg rs 0 ?ps"
  show "generate_synthetic_data cfg rs =
     Inr (?ps, ?as, admissions_list (admissions_loop cfg rs (zip ?ps ?as) initial_state))"
    by (rule generate_synthetic_data_success[OF assms(1)])
  fix a assume "a \<in> set ?as"
  then obtain i where i: "i < length ?ps" and a: "a = ?as ! i"
    by (metis in_set_conv_nth adherence_loop_length)
  note s = adherence_loop_score[OF assms(2-5) i]
  from assms(3) have t: "2 / 10 \<le> ADHERENCE_THRESHOLD cfg - 1 / 100" by simp
  from s t assms(4) show "2 / 10 \<le> pdc_score a"
    unfolding a by (cases "random_random rs (2 * i) < target_adherence cfg (?ps ! i)") auto
  from s t assms(4) show "pdc_score a \<le> 1"
    unfolding a by (cases "random_random rs (2 * i) < target_adherence cfg (?ps ! i)") auto
  from s show "\<not> (ADHERENCE_THRESHOLD cfg - 1 / 100 < pdc_score a \<and>
           pdc_score a < ADHERENCE_THRESHOLD cfg)"
    unfolding a by (cases "random_random rs (2 * i) < target_adherence cfg (?ps ! i)") auto
  show "has_decimals 4 (pdc_score a)"
    unfolding a adherence_loop_nth[OF i] by (simp add: has_decimals_py_round)
qed


lemma example_generated:
  "generate_synthetic_data small_config example_source
   = Inr (generated_patients, generated_adherence, generated_admissions)"
  by code_simp

lemma small_config_valid:
  "0 < TOTAL_PATIENTS small_config" "0 \<le> GROUP_1_RATIO small_config"
  "GROUP_1_RATIO small_config \<le> 1" "has_decimals 4 (ADHERENCE_THRESHOLD small_config)"
  "21 / 100 \<le> ADHERENCE_THRESHOLD small_config" "ADHERENCE_THRESHOLD small_config \<le> 1"
  by (simp_all add: small_config_def source_config_def has_decimals_def)

lemma example_source_unit_interval:
  "\<forall>k. 0 \<le> random_random example_source k \<and> random_random example_source k < 1"
  by (simp add: example_source_def)




text \<open>The five generated scores: \<open>0.9\<close> and \<open>0.3475\<close>, none in the gap \<open>(0.79, 0.8)\<close>.\<close>

theorem generated_score_range_witness:
  "0 < TOTAL_PATIENTS small_config \<and> has_decimals 4 (ADHERENCE_THRESHOLD small_config) \<and>
   21 / 100 \<le> ADHERENCE_THRESHOLD small_config \<and> ADHERENCE_THRESHOLD small_config \<le> 1 \<and>
   generate_synthetic_data small_config example_source
     = Inr (generated_patients, generated_adherence, generated_admissions) \<and>
   map pdc_score generated_adherence = [9 / 10, 3475 / 10000, 9 / 10, 3475 / 10000, 9 / 10] \<and>
   list_all (\<lambda>a. 2 / 10 \<le> pdc_score a \<and> pdc_score a \<le> 1 \<and> has_decimals 4 (pdc_score a))
     generated_adherence \<and>
   list_ex (\<lambda>a. 79 / 100 < pdc_score a \<and> pdc_score a < 8 / 10) generated_adherence = False"
proof -
  from generated_score_range[OF small_config_valid(1,4,5,6) example_source_unit_interval]
  obtain ps as hs where g: "generate_synthetic_data small_config example_source = Inr (ps, as, hs)"
    and s: "\<forall>a\<in>set as. 2 / 10 \<le> pdc_score a \<and> pdc_score a \<le> 1 \<and> has_decimals 4 (pdc_score a) \<and>
        \<not> (ADHERENCE_THRESHOLD small_config - 1 / 100 < pdc_score a \<and>
           pdc_score a < ADHERENCE_THRESHOLD small_config)"
    by blast
  from g have e: "as = generated_adherence" by (simp add: example_generated)
  have t: "ADHERENCE_THRESHOLD small_config - 1 / 100 = 79 / 100"
    "ADHERENCE_THRESHOLD small_config = 8 / 10"
    by (simp_all add: small_config_def source_config_def)
  from s have 1: "list_all (\<lambda>a. 2 / 10 \<le> pdc_score a \<and> pdc_score a \<le> 1 \<and>
      has_decimals 4 (pdc_score a)) generated_adherence"
    unfolding e by (simp add: list_all_iff)
  from s have 2: "list_ex (\<lambda>a. 79 / 100 < pdc_score a \<and> pdc_score a < 8 / 10)
      generated_adherence = False"
    unfolding e t by (auto simp: list_ex_iff)
  have 3: "map pdc_score generated_adherence
           = [9 / 10, 3475 / 10000, 9 / 10, 3475 / 10000, 9 / 10]"
    by (simp add: generated_adherence_def)
  from small_config_valid(1,4,5,6) example_generated 1 2 3 show ?thesis by blast
qed


end
